theory Spec2Isabelle
  imports Main "HOL-Library.Char_ord" "HOL-Library.List_Lexorder"
begin

section \<open>Strings, errors and the input validator (core/validation.py)\<close>

text \<open>
  Python strings are modelled as HOL strings; a \<^typ>\<open>char\<close> is read as a code point
  below 256. The order on strings is the lexicographic order on code points, which is the
  order Python's \<^verbatim>\<open>sorted\<close> uses on \<^verbatim>\<open>str\<close>.

  Exceptions are values: \<open>ValidationError\<close> is the class of validation.py,
  \<open>ReError\<close> is \<^verbatim>\<open>re.error\<close>, raised by \<^verbatim>\<open>re.compile\<close>, \<open>TypeError\<close>,
  \<open>AttributeError\<close> and \<open>KeyError\<close> are what Python raises when an operation meets a
  value of the wrong type or a dictionary without the key, and the other constructors are the subclasses of \<open>OSError\<close> that
  \<^verbatim>\<open>Path.mkdir\<close> and \<^verbatim>\<open>shutil.copy2\<close> raise.

  A log is the list of the lines written by \<^verbatim>\<open>log_info\<close> and \<^verbatim>\<open>log_warning\<close> and of
  the command lines run by \<^verbatim>\<open>subprocess.run\<close>, in order.
\<close>

datatype py_error =
    ValidationError string
  | ReError string
  | TypeError
  | AttributeError
  | KeyError
  | FileExistsError
  | FileNotFoundError
  | NotADirectoryError
  | IsADirectoryError
  | SameFileError

datatype log_line = Info string | Warning string | Exec "string list"

text \<open>\<^verbatim>\<open>str(e)\<close> for a caught exception: the message of a \<open>ValidationError\<close>.\<close>

definition error_text :: "py_error \<Rightarrow> string" where
  "error_text e = (case e of ValidationError m \<Rightarrow> m | ReError m \<Rightarrow> m | _ \<Rightarrow> [])"

text \<open>\<^verbatim>\<open>str.isspace\<close> on the code points below 256: the characters \<^verbatim>\<open>str.strip()\<close> removes.\<close>

definition py_isspace :: "char \<Rightarrow> bool" where
  "py_isspace c =
     (let n = (of_char c :: nat)
      in (9 \<le> n \<and> n \<le> 13) \<or> (28 \<le> n \<and> n \<le> 32) \<or> n = 133 \<or> n = 160)"

definition strip :: "string \<Rightarrow> string" where
  "strip s = rev (dropWhile py_isspace (rev (dropWhile py_isspace s)))"

text \<open>The character class \<^verbatim>\<open>[a-zA-Z0-9._-]\<close> of \<^verbatim>\<open>NODE_NAME_PATTERN\<close>.\<close>

definition name_char :: "char \<Rightarrow> bool" where
  "name_char c =
     ((CHR ''a'' \<le> c \<and> c \<le> CHR ''z'') \<or> (CHR ''A'' \<le> c \<and> c \<le> CHR ''Z'') \<or>
      (CHR ''0'' \<le> c \<and> c \<le> CHR ''9'') \<or> c = CHR ''.'' \<or> c = CHR ''_'' \<or> c = CHR ''-'')"

text \<open>The character class \<^verbatim>\<open>[a-zA-Z0-9.*_-]\<close> of \<^verbatim>\<open>validate_filter_pattern\<close>.\<close>

definition filter_char :: "char \<Rightarrow> bool" where
  "filter_char c = (name_char c \<or> c = CHR ''*'')"

text \<open>
  \<^verbatim>\<open>re.match(r'^[...]+$', s)\<close> for a character class: one or more characters of the
  class, up to the end of the string; Python's \<^verbatim>\<open>$\<close> also matches just before a final
  newline.
\<close>

definition re_match_class_plus :: "(char \<Rightarrow> bool) \<Rightarrow> string \<Rightarrow> bool" where
  "re_match_class_plus cls s =
     (let body = (if s \<noteq> [] \<and> last s = CHR 0x0A then butlast s else s)
      in body \<noteq> [] \<and> list_all cls body)"

text \<open>
  \<^verbatim>\<open>InputValidator.sanitize_node_name\<close>. The \<^verbatim>\<open>isinstance\<close> test is the type of
  the argument.
\<close>

definition sanitize_node_name :: "string \<Rightarrow> py_error + string" where
  "sanitize_node_name node_name =
     (if node_name = [] then Inl (ValidationError ''Node name must be a non-empty string'')
      else
        let node_name = strip node_name
        in if \<not> re_match_class_plus name_char node_name
           then Inl (ValidationError (''Invalid node name format: '' @ node_name))
           else if length node_name > 100
           then Inl (ValidationError (''Node name too long: '' @ node_name))
           else Inr node_name)"

text \<open>\<^verbatim>\<open>InputValidator.validate_filter_pattern\<close>.\<close>

definition validate_filter_pattern :: "string \<Rightarrow> py_error + string" where
  "validate_filter_pattern pattern =
     (let pattern = strip pattern
      in if pattern = [] then Inl (ValidationError ''Filter pattern cannot be empty'')
         else if \<not> re_match_class_plus filter_char pattern
         then Inl (ValidationError (''Invalid filter pattern: '' @ pattern))
         else Inr pattern)"

section \<open>The regular expressions that filter\_nodes builds\<close>

text \<open>
  \<^verbatim>\<open>node_filter.replace("*", ".*")\<close>, then \<^verbatim>\<open>re.compile\<close>, then \<^verbatim>\<open>regex.match(n)\<close>.
  The model of \<^verbatim>\<open>re.compile\<close> covers the patterns over the alphabet that
  \<^verbatim>\<open>validate_filter_pattern\<close> admits: \<^verbatim>\<open>.\<close> is any character but a newline,
  \<^verbatim>\<open>*\<close> repeats the atom before it (and raises \<^verbatim>\<open>re.error\<close> with nothing to repeat,
  or after another repeat), every other character stands for itself.
\<close>

definition replace_star :: "string \<Rightarrow> string" where
  "replace_star s = concat (map (\<lambda>c. if c = CHR ''*'' then ''.*'' else [c]) s)"

datatype re_atom = AnyChar | Lit char

datatype re_item = One re_atom | Star re_atom

definition re_atom_of :: "char \<Rightarrow> re_atom" where
  "re_atom_of c = (if c = CHR ''.'' then AnyChar else Lit c)"

fun re_compile :: "string \<Rightarrow> py_error + re_item list" where
  "re_compile [] = Inr []"
| "re_compile [c] =
     (if c = CHR ''*'' then Inl (ReError ''nothing to repeat'') else Inr [One (re_atom_of c)])"
| "re_compile (c # d # cs) =
     (if c = CHR ''*'' then Inl (ReError ''nothing to repeat'')
      else if d = CHR ''*'' then
        (case cs of
           e # _ \<Rightarrow>
             if e = CHR ''*'' then Inl (ReError ''multiple repeat'')
             else map_sum id ((#) (Star (re_atom_of c))) (re_compile cs)
         | [] \<Rightarrow> Inr [Star (re_atom_of c)])
      else map_sum id ((#) (One (re_atom_of c))) (re_compile (d # cs)))"

fun atom_accepts :: "re_atom \<Rightarrow> char \<Rightarrow> bool" where
  "atom_accepts AnyChar c = (c \<noteq> CHR 0x0A)"
| "atom_accepts (Lit l) c = (c = l)"

text \<open>\<^verbatim>\<open>regex.match(n)\<close> is truthy when the expression matches some prefix of \<open>n\<close>.\<close>

fun re_match :: "re_item list \<Rightarrow> string \<Rightarrow> bool" where
  "re_match [] s = True"
| "re_match (One a # r) [] = False"
| "re_match (One a # r) (c # s) = (atom_accepts a c \<and> re_match r s)"
| "re_match (Star a # r) [] = re_match r []"
| "re_match (Star a # r) (c # s) =
     (re_match r (c # s) \<or> (atom_accepts a c \<and> re_match (Star a # r) s))"

section \<open>The classifier and its documents\<close>

text \<open>
  \<^verbatim>\<open>json.loads\<close> returns Python values. The parts of a document that the code only
  passes on (parameter values, typed \<^verbatim>\<open>Any\<close>) are \<open>pyval\<close>; the parts it reads are
  typed as the annotations of the source and the classifier's interface give them:
  a node document is a mapping with the optional keys \<^verbatim>\<open>parameters\<close> (a mapping),
  \<^verbatim>\<open>classes\<close> (a list of strings) and \<^verbatim>\<open>applications\<close>; an inventory document is a
  mapping with the optional keys \<^verbatim>\<open>nodes\<close> (node name to node document) and
  \<^verbatim>\<open>classes\<close>. A mapping is the list of its items in the dictionary's order; a field
  is \<open>None\<close> when the key is missing. A node document with no key at all is the empty
  dictionary, which is falsy in Python; every test \<^verbatim>\<open>d and "k" in d\<close> of the source
  is therefore the test that the key is present.
\<close>

datatype pyval =
    PNone
  | PBool bool
  | PInt int
  | PStr string
  | PList "pyval list"
  | PDict "(string \<times> pyval) list"

record node_data =
  nd_parameters :: "(string \<times> pyval) list option"
  nd_classes :: "string list option"
  nd_applications :: "string list option"

record inventory_data =
  inv_nodes :: "(string \<times> node_data) list option"
  inv_classes :: "(string \<times> pyval) list option"

text \<open>
  \<^verbatim>\<open>subprocess.run(cmd, check=True)\<close> followed by \<^verbatim>\<open>json.loads(result.stdout)\<close>:
  the process exits non-zero, or its output is not JSON, or a document is loaded. The
  external tool is a function of the command line, one for each shape of document.
\<close>

datatype 'a proc_outcome = CalledProcessError | JSONDecodeError | Loaded 'a

record classifier =
  run_node :: "string list \<Rightarrow> node_data proc_outcome"
  run_inventory :: "string list \<Rightarrow> inventory_data proc_outcome"

section \<open>ReclassManager (parsers/reclass\_parser.py)\<close>

record ReclassManager =
  rm_inventory_dir :: string
  rm_dry_run :: bool
  rm_reclass_path :: "string option"

text \<open>
  \<^verbatim>\<open>reclass_path\<close> is what \<^verbatim>\<open>shutil.which\<close> returned: nothing, or a path, which is a
  non-empty string and so truthy. \<^verbatim>\<open>get_node_data\<close> and \<^verbatim>\<open>get_inventory_data\<close>
  return the list of command lines they executed together with their result; their log
  lines are not modelled.
\<close>

definition ReclassManager_get_node_data ::
  "ReclassManager \<Rightarrow> classifier \<Rightarrow> string \<Rightarrow> string list list \<times> node_data option" where
  "ReclassManager_get_node_data self ext node_name =
     (case rm_reclass_path self of
        None \<Rightarrow> ([], None)
      | Some reclass \<Rightarrow>
          (case sanitize_node_name node_name of
             Inl e \<Rightarrow> ([], None)
           | Inr node_name \<Rightarrow>
               let cmd = [reclass, ''-b'', rm_inventory_dir self, ''-n'', node_name,
                          ''--output'', ''json'']
               in if rm_dry_run self
                  then ([], Some \<lparr>nd_parameters = Some [], nd_classes = Some [],
                                  nd_applications = Some []\<rparr>)
                  else (case run_node ext cmd of
                          CalledProcessError \<Rightarrow> ([cmd], None)
                        | JSONDecodeError \<Rightarrow> ([cmd], None)
                        | Loaded d \<Rightarrow> ([cmd], Some d))))"

definition ReclassManager_get_inventory_data ::
  "ReclassManager \<Rightarrow> classifier \<Rightarrow> string list list \<times> inventory_data option" where
  "ReclassManager_get_inventory_data self ext =
     (case rm_reclass_path self of
        None \<Rightarrow> ([], None)
      | Some reclass \<Rightarrow>
          let cmd = [reclass, ''-b'', rm_inventory_dir self, ''--inventory'',
                     ''--output'', ''json'']
          in if rm_dry_run self
             then ([], Some \<lparr>inv_nodes = Some [], inv_classes = Some []\<rparr>)
             else (case run_inventory ext cmd of
                     CalledProcessError \<Rightarrow> ([cmd], None)
                   | JSONDecodeError \<Rightarrow> ([cmd], None)
                   | Loaded d \<Rightarrow> ([cmd], Some d)))"

definition ReclassManager_list_nodes :: "ReclassManager \<Rightarrow> classifier \<Rightarrow> string list" where
  "ReclassManager_list_nodes self ext =
     (case snd (ReclassManager_get_inventory_data self ext) of
        None \<Rightarrow> []
      | Some inventory_data \<Rightarrow>
          (case inv_nodes inventory_data of None \<Rightarrow> [] | Some nodes \<Rightarrow> map fst nodes))"

definition ReclassManager_get_node_parameters ::
  "ReclassManager \<Rightarrow> classifier \<Rightarrow> string \<Rightarrow> (string \<times> pyval) list" where
  "ReclassManager_get_node_parameters self ext node_name =
     (case snd (ReclassManager_get_node_data self ext node_name) of
        None \<Rightarrow> []
      | Some d \<Rightarrow> (case nd_parameters d of None \<Rightarrow> [] | Some ps \<Rightarrow> ps))"

definition ReclassManager_get_node_classes ::
  "ReclassManager \<Rightarrow> classifier \<Rightarrow> string \<Rightarrow> string list" where
  "ReclassManager_get_node_classes self ext node_name =
     (case snd (ReclassManager_get_node_data self ext node_name) of
        None \<Rightarrow> []
      | Some d \<Rightarrow> (case nd_classes d of None \<Rightarrow> [] | Some cs \<Rightarrow> cs))"

text \<open>\<^verbatim>\<open>"classes" in node_data and class_name in node_data["classes"]\<close>.\<close>

definition carries_class :: "string \<Rightarrow> node_data \<Rightarrow> bool" where
  "carries_class class_name d =
     (case nd_classes d of None \<Rightarrow> False | Some cs \<Rightarrow> class_name \<in> set cs)"

definition ReclassManager_get_nodes_by_class ::
  "ReclassManager \<Rightarrow> classifier \<Rightarrow> string \<Rightarrow> string list" where
  "ReclassManager_get_nodes_by_class self ext class_name =
     (case snd (ReclassManager_get_inventory_data self ext) of
        None \<Rightarrow> []
      | Some inventory_data \<Rightarrow>
          (case inv_nodes inventory_data of
             None \<Rightarrow> []
           | Some nodes \<Rightarrow> map fst (filter (\<lambda>(n, d). carries_class class_name d) nodes)))"

subsection \<open>filter\_nodes\<close>

text \<open>An \<^verbatim>\<open>Optional[str]\<close> argument is truthy when it is a non-empty string.\<close>

fun given :: "string option \<Rightarrow> string option" where
  "given None = None"
| "given (Some s) = (if s = [] then None else Some s)"

text \<open>
  The body of the node filter's \<^verbatim>\<open>try\<close> after validation: a regular expression when
  the pattern has a \<^verbatim>\<open>*\<close>, equality otherwise.
\<close>

definition node_matcher :: "string \<Rightarrow> py_error + (string \<Rightarrow> bool)" where
  "node_matcher node_filter =
     (if CHR ''*'' \<in> set node_filter
      then map_sum id re_match (re_compile (replace_star node_filter))
      else Inr (\<lambda>n. n = node_filter))"

text \<open>
  Each filter step, with the warning it logs. A \<open>ValidationError\<close> (the only exception
  the validator raises) is caught, the warning is logged and the candidate set passes
  unchanged; \<^verbatim>\<open>re.error\<close> is not caught.
\<close>

definition apply_node_filter ::
  "string \<Rightarrow> string set \<Rightarrow> log_line list \<times> (py_error + string set)" where
  "apply_node_filter node_filter filtered_nodes =
     (case validate_filter_pattern node_filter of
        Inl e \<Rightarrow> ([Warning (''Invalid node filter: '' @ error_text e)], Inr filtered_nodes)
      | Inr node_filter \<Rightarrow>
          ([], map_sum id (\<lambda>accepts. Set.filter accepts filtered_nodes)
                 (node_matcher node_filter)))"

definition apply_class_filter ::
  "ReclassManager \<Rightarrow> classifier \<Rightarrow> string \<Rightarrow> string set \<Rightarrow> log_line list \<times> string set" where
  "apply_class_filter self ext class_filter filtered_nodes =
     (case validate_filter_pattern class_filter of
        Inl e \<Rightarrow> ([Warning (''Invalid class filter: '' @ error_text e)], filtered_nodes)
      | Inr class_filter \<Rightarrow>
          ([], filtered_nodes \<inter> set (ReclassManager_get_nodes_by_class self ext class_filter)))"

definition apply_project_filter ::
  "ReclassManager \<Rightarrow> classifier \<Rightarrow> string \<Rightarrow> string set \<Rightarrow> log_line list \<times> string set" where
  "apply_project_filter self ext project_filter filtered_nodes =
     (case validate_filter_pattern project_filter of
        Inl e \<Rightarrow> ([Warning (''Invalid project filter: '' @ error_text e)], filtered_nodes)
      | Inr project_filter \<Rightarrow>
          ([], Set.filter
                 (\<lambda>node. map_of (ReclassManager_get_node_parameters self ext node) ''project''
                          = Some (PStr project_filter))
                 filtered_nodes))"

text \<open>
  \<^verbatim>\<open>filter_nodes\<close> with the warnings it logs itself, in order (the log lines of the
  methods it calls are not modelled), and \<^verbatim>\<open>filter_nodes\<close> as the value it returns.
\<close>

definition filter_nodes_logged ::
  "ReclassManager \<Rightarrow> classifier \<Rightarrow> string option \<Rightarrow> string option \<Rightarrow> string option
     \<Rightarrow> log_line list \<times> (py_error + string list)" where
  "filter_nodes_logged self ext node_filter class_filter project_filter =
     (let all_nodes = ReclassManager_list_nodes self ext
      in if given node_filter = None \<and> given class_filter = None \<and> given project_filter = None
         then ([], Inr all_nodes)
         else
           (case (case given node_filter of
                    None \<Rightarrow> ([], Inr (set all_nodes))
                  | Some f \<Rightarrow> apply_node_filter f (set all_nodes)) of
              (log1, Inl e) \<Rightarrow> (log1, Inl e)
            | (log1, Inr filtered_nodes) \<Rightarrow>
                (case (case given class_filter of
                         None \<Rightarrow> ([], filtered_nodes)
                       | Some f \<Rightarrow> apply_class_filter self ext f filtered_nodes) of
                   (log2, filtered_nodes) \<Rightarrow>
                     (case (case given project_filter of
                              None \<Rightarrow> ([], filtered_nodes)
                            | Some f \<Rightarrow> apply_project_filter self ext f filtered_nodes) of
                        (log3, filtered_nodes) \<Rightarrow>
                          (log1 @ log2 @ log3, Inr (sorted_list_of_set filtered_nodes))))))"

definition filter_nodes ::
  "ReclassManager \<Rightarrow> classifier \<Rightarrow> string option \<Rightarrow> string option \<Rightarrow> string option
     \<Rightarrow> py_error + string list" where
  "filter_nodes self ext node_filter class_filter project_filter =
     snd (filter_nodes_logged self ext node_filter class_filter project_filter)"

section \<open>The file system as pathlib and shutil see it\<close>

text \<open>
  A \<^verbatim>\<open>Path\<close> is the list of its components below a fixed base directory; the empty
  list is the base itself, which always exists and is a directory. The file system is
  the list of its entries, a directory or a file with its content; the order of the list
  is the order in which a directory scan (\<^verbatim>\<open>rglob\<close>) yields them.
\<close>

type_synonym path = "string list"

datatype entry = Dir | File string

type_synonym filesystem = "(path \<times> entry) list"

definition stat :: "filesystem \<Rightarrow> path \<Rightarrow> entry option" where
  "stat fs p = (if p = [] then Some Dir else map_of fs p)"

definition path_exists :: "filesystem \<Rightarrow> path \<Rightarrow> bool" where
  "path_exists fs p = (stat fs p \<noteq> None)"

definition is_dir :: "filesystem \<Rightarrow> path \<Rightarrow> bool" where
  "is_dir fs p = (stat fs p = Some Dir)"

definition is_file :: "filesystem \<Rightarrow> path \<Rightarrow> bool" where
  "is_file fs p = (case stat fs p of Some (File c) \<Rightarrow> True | _ \<Rightarrow> False)"

fun put :: "path \<Rightarrow> entry \<Rightarrow> filesystem \<Rightarrow> filesystem" where
  "put p e [] = [(p, e)]"
| "put p e ((q, x) # fs) = (if q = p then (p, e) # fs else (q, x) # put p e fs)"

text \<open>\<^verbatim>\<open>str(path)\<close> and \<^verbatim>\<open>str.replace\<close> of one character.\<close>

fun join :: "string \<Rightarrow> string list \<Rightarrow> string" where
  "join sep [] = []"
| "join sep [x] = x"
| "join sep (x # y # ys) = x @ sep @ join sep (y # ys)"

definition path_str :: "path \<Rightarrow> string" where
  "path_str p = (if p = [] then ''.'' else join ''/'' p)"

definition replace_char :: "char \<Rightarrow> char \<Rightarrow> string \<Rightarrow> string" where
  "replace_char old new s = map (\<lambda>c. if c = old then new else c) s"

text \<open>
  The operating system resolves the directories on the way to a path from the base
  down: the first one that is missing gives \<open>FileNotFoundError\<close>, the first one that is
  a file gives \<open>NotADirectoryError\<close>.
\<close>

definition ancestors :: "path \<Rightarrow> path list" where
  "ancestors p = map (\<lambda>k. take k p) [1..<length p]"

definition check_parents :: "filesystem \<Rightarrow> path \<Rightarrow> py_error option" where
  "check_parents fs p =
     (case find (\<lambda>q. stat fs q \<noteq> Some Dir) (ancestors p) of
        None \<Rightarrow> None
      | Some q \<Rightarrow> if stat fs q = None then Some FileNotFoundError else Some NotADirectoryError)"

text \<open>\<^verbatim>\<open>os.mkdir\<close>: the error it raises, if any, and the file system afterwards.\<close>

definition os_mkdir :: "filesystem \<Rightarrow> path \<Rightarrow> py_error option \<times> filesystem" where
  "os_mkdir fs p =
     (case check_parents fs p of
        Some e \<Rightarrow> (Some e, fs)
      | None \<Rightarrow> if path_exists fs p then (Some FileExistsError, fs) else (None, put p Dir fs))"

text \<open>\<^verbatim>\<open>Path.mkdir(exist_ok=True)\<close>, without \<^verbatim>\<open>parents\<close>.\<close>

definition mkdir_exist_ok :: "filesystem \<Rightarrow> path \<Rightarrow> py_error option \<times> filesystem" where
  "mkdir_exist_ok fs p =
     (case os_mkdir fs p of
        (None, fs') \<Rightarrow> (None, fs')
      | (Some e, fs') \<Rightarrow>
          if e = FileNotFoundError then (Some e, fs')
          else if is_dir fs' p then (None, fs') else (Some e, fs'))"

text \<open>
  \<^verbatim>\<open>Path.mkdir(parents=True, exist_ok=True)\<close>, as pathlib does it: try \<^verbatim>\<open>os.mkdir\<close>;
  on \<open>FileNotFoundError\<close> make the parent the same way and try once more; any other
  \<open>OSError\<close> is swallowed when the path is a directory already.
\<close>

function mkdir_parents :: "filesystem \<Rightarrow> path \<Rightarrow> py_error option \<times> filesystem" where
  "mkdir_parents fs p =
     (case os_mkdir fs p of
        (None, fs') \<Rightarrow> (None, fs')
      | (Some e, fs') \<Rightarrow>
          if e = FileNotFoundError then
            (if p = [] then (Some e, fs')
             else (case mkdir_parents fs' (butlast p) of
                     (Some e', fs'') \<Rightarrow> (Some e', fs'')
                   | (None, fs'') \<Rightarrow> mkdir_exist_ok fs'' p))
          else if is_dir fs' p then (None, fs') else (Some e, fs'))"
  by pat_completeness auto
termination
  by (relation "measure (\<lambda>(fs, p). length p)") auto

declare mkdir_parents.simps [simp del]

text \<open>
  \<^verbatim>\<open>shutil.copy2(src, dst)\<close>: into the directory \<open>dst\<close> under the name of \<open>src\<close> when
  \<open>dst\<close> is a directory, onto the file \<open>dst\<close> otherwise.
\<close>

definition copy2 :: "filesystem \<Rightarrow> path \<Rightarrow> path \<Rightarrow> py_error option \<times> filesystem" where
  "copy2 fs src dst =
     (let dst = (if is_dir fs dst \<and> src \<noteq> [] then dst @ [last src] else dst)
      in if src = dst \<and> path_exists fs src then (Some SameFileError, fs)
         else
           (case stat fs src of
              None \<Rightarrow> (Some FileNotFoundError, fs)
            | Some Dir \<Rightarrow> (Some IsADirectoryError, fs)
            | Some (File content) \<Rightarrow>
                (case check_parents fs dst of
                   Some e \<Rightarrow> (Some e, fs)
                 | None \<Rightarrow>
                     if is_dir fs dst then (Some IsADirectoryError, fs)
                     else (None, put dst (File content) fs))))"

text \<open>\<^verbatim>\<open>source.rglob("*")\<close>: every entry strictly below \<open>source\<close>.\<close>

definition below :: "path \<Rightarrow> path \<Rightarrow> bool" where
  "below source q = (length source < length q \<and> take (length source) q = source)"

definition rglob_all :: "filesystem \<Rightarrow> path \<Rightarrow> path list" where
  "rglob_all fs source = filter (below source) (map fst fs)"

section \<open>The world the file operations act on\<close>

text \<open>
  The log is kept next to the file system. The text a failed process or an exception
  of the operating system contributes to a message is left out.
\<close>

record world =
  w_fs :: filesystem
  w_log :: "log_line list"

definition log_info :: "string \<Rightarrow> world \<Rightarrow> world" where
  "log_info msg w = w\<lparr>w_log := w_log w @ [Info msg]\<rparr>"

definition log_warning :: "string \<Rightarrow> world \<Rightarrow> world" where
  "log_warning msg w = w\<lparr>w_log := w_log w @ [Warning msg]\<rparr>"

text \<open>
  What the platform provides: \<^verbatim>\<open>shutil.which("rsync")\<close>, and the rsync process itself,
  which exits with success or failure and leaves a file system behind.
\<close>

record sync_tool =
  which_rsync :: "string option"
  run_rsync :: "string list \<Rightarrow> filesystem \<Rightarrow> bool \<times> filesystem"

section \<open>FileManager (core/file\_ops.py)\<close>

record FileManager =
  fm_dry_run :: bool
  fm_rsync_path :: "string option"

text \<open>\<^verbatim>\<open>FileManager(dry_run)\<close>: the constructor looks rsync up.\<close>

definition FileManager_init :: "sync_tool \<Rightarrow> bool \<Rightarrow> FileManager" where
  "FileManager_init tool dry = \<lparr>fm_dry_run = dry, fm_rsync_path = which_rsync tool\<rparr>"

text \<open>\<^verbatim>\<open>options.split()\<close>: the maximal runs of characters that are not whitespace.\<close>

fun split_ws :: "string \<Rightarrow> string \<Rightarrow> string list" where
  "split_ws cur [] = (if cur = [] then [] else [rev cur])"
| "split_ws cur (c # cs) =
     (if py_isspace c then (if cur = [] then split_ws [] cs else rev cur # split_ws [] cs)
      else split_ws (c # cur) cs)"

definition words :: "string \<Rightarrow> string list" where
  "words s = split_ws [] s"

definition rsync_sync ::
  "FileManager \<Rightarrow> sync_tool \<Rightarrow> path \<Rightarrow> path \<Rightarrow> string \<Rightarrow> world
     \<Rightarrow> (py_error + bool) \<times> world" where
  "rsync_sync self tool source destination options w =
     (case fm_rsync_path self of
        None \<Rightarrow> (Inr False, w)
      | Some rsync \<Rightarrow>
          let option_list = words options;
              source_str = path_str source;
              source_str = (if source_str \<noteq> [] \<and> last source_str = CHR ''/''
                            then source_str else source_str @ ''/'');
              cmd = [rsync] @ option_list @ [source_str, path_str destination];
              w = log_info (''Syncing '' @ path_str source @ '' to '' @ path_str destination
                            @ '' using rsync'') w
          in if fm_dry_run self
             then (Inr True, log_info (''DRY RUN: Would execute: '' @ join '' '' cmd) w)
             else
               (case run_rsync tool cmd (w_fs w) of
                  (True, fs') \<Rightarrow>
                    (Inr True,
                     log_info (''Successfully synced '' @ path_str source @ '' to ''
                               @ path_str destination)
                       (w\<lparr>w_fs := fs', w_log := w_log w @ [Exec cmd]\<rparr>))
                | (False, fs') \<Rightarrow>
                    (Inr False,
                     log_warning ''rsync failed: ''
                       (w\<lparr>w_fs := fs', w_log := w_log w @ [Exec cmd]\<rparr>))))"

text \<open>
  The loop of \<^verbatim>\<open>_python_sync\<close> over the items \<^verbatim>\<open>source.rglob("*")\<close> yielded; the
  list of items is the scan of the file system at the start of the loop.
\<close>

fun copy_items ::
  "path \<Rightarrow> path \<Rightarrow> path list \<Rightarrow> filesystem \<Rightarrow> py_error option \<times> filesystem" where
  "copy_items source destination [] fs = (None, fs)"
| "copy_items source destination (item # items) fs =
     (if item \<noteq> [] \<and> (last item = ''.git'' \<or> last item = ''.keep'')
      then copy_items source destination items fs
      else
        let rel_path = drop (length source) item;
            dest_path = destination @ rel_path
        in if is_file fs item then
             (case mkdir_parents fs (butlast dest_path) of
                (Some e, fs1) \<Rightarrow> (Some e, fs1)
              | (None, fs1) \<Rightarrow>
                  (case copy2 fs1 item dest_path of
                     (Some e, fs2) \<Rightarrow> (Some e, fs2)
                   | (None, fs2) \<Rightarrow> copy_items source destination items fs2))
           else if is_dir fs item then
             (case mkdir_parents fs dest_path of
                (Some e, fs1) \<Rightarrow> (Some e, fs1)
              | (None, fs1) \<Rightarrow> copy_items source destination items fs1)
           else copy_items source destination items fs)"

definition python_sync ::
  "FileManager \<Rightarrow> path \<Rightarrow> path \<Rightarrow> bool \<Rightarrow> world \<Rightarrow> (py_error + bool) \<times> world" where
  "python_sync self source destination recursive w =
     (let w = log_info (''Syncing '' @ path_str source @ '' to '' @ path_str destination
                        @ '' using Python'') w
      in if fm_dry_run self
         then (Inr True,
               log_info (''DRY RUN: Would copy '' @ path_str source @ '' to ''
                         @ path_str destination) w)
         else
           (case (if is_file (w_fs w) source then copy2 (w_fs w) source destination
                  else if is_dir (w_fs w) source \<and> recursive
                  then copy_items source destination (rglob_all (w_fs w) source) (w_fs w)
                  else (None, w_fs w)) of
              (None, fs') \<Rightarrow>
                (Inr True,
                 log_info (''Successfully synced '' @ path_str source @ '' to ''
                           @ path_str destination) (w\<lparr>w_fs := fs'\<rparr>))
            | (Some e, fs') \<Rightarrow>
                (Inr False, log_warning ''Python sync failed: '' (w\<lparr>w_fs := fs'\<rparr>))))"

text \<open>
  \<^verbatim>\<open>FileManager.sync_directories\<close>. An exception of \<^verbatim>\<open>destination.mkdir\<close> is not
  caught: it leaves the function.
\<close>

definition sync_directories ::
  "FileManager \<Rightarrow> sync_tool \<Rightarrow> path \<Rightarrow> path \<Rightarrow> string \<Rightarrow> bool \<Rightarrow> world
     \<Rightarrow> (py_error + bool) \<times> world" where
  "sync_directories self tool source destination options recursive w =
     (if \<not> path_exists (w_fs w) source
      then (Inr False,
            log_warning (''Source directory does not exist: '' @ path_str source) w)
      else
        (case mkdir_parents (w_fs w) destination of
           (Some e, fs') \<Rightarrow> (Inl e, w\<lparr>w_fs := fs'\<rparr>)
         | (None, fs') \<Rightarrow>
             if fm_rsync_path self \<noteq> None
             then rsync_sync self tool source destination options (w\<lparr>w_fs := fs'\<rparr>)
             else python_sync self source destination recursive (w\<lparr>w_fs := fs'\<rparr>)))"

text \<open>The default arguments of \<^verbatim>\<open>sync_directories\<close>.\<close>

definition default_options :: string where
  "default_options = ''-a -m --exclude=.keep''"

section \<open>ReclassParser (core/reclass.py)\<close>

record ReclassParser =
  rp_inventory_dir :: path
  rp_dry_run :: bool
  rp_reclass_path :: "string option"

definition ReclassParser_get_node_data ::
  "ReclassParser \<Rightarrow> classifier \<Rightarrow> string \<Rightarrow> string list list \<times> node_data option" where
  "ReclassParser_get_node_data self ext node_name =
     (case rp_reclass_path self of
        None \<Rightarrow> ([], None)
      | Some reclass \<Rightarrow>
          (case sanitize_node_name node_name of
             Inl e \<Rightarrow> ([], None)
           | Inr node_name \<Rightarrow>
               let cmd = [reclass, ''-b'', path_str (rp_inventory_dir self), ''-n'', node_name,
                          ''--output-format'', ''json'']
               in if rp_dry_run self
                  then ([], Some \<lparr>nd_parameters = Some [], nd_classes = Some [],
                                  nd_applications = Some []\<rparr>)
                  else (case run_node ext cmd of
                          CalledProcessError \<Rightarrow> ([cmd], None)
                        | JSONDecodeError \<Rightarrow> ([cmd], None)
                        | Loaded d \<Rightarrow> ([cmd], Some d))))"

text \<open>
  \<^verbatim>\<open>node_data.get('parameters', {})\<close> under \<^verbatim>\<open>if node_data\<close>: the default when the
  key is missing.
\<close>

definition ReclassParser_get_node_parameters ::
  "ReclassParser \<Rightarrow> classifier \<Rightarrow> string \<Rightarrow> (string \<times> pyval) list" where
  "ReclassParser_get_node_parameters self ext node_name =
     (case snd (ReclassParser_get_node_data self ext node_name) of
        None \<Rightarrow> []
      | Some d \<Rightarrow> (case nd_parameters d of None \<Rightarrow> [] | Some ps \<Rightarrow> ps))"

definition ReclassParser_get_node_classes ::
  "ReclassParser \<Rightarrow> classifier \<Rightarrow> string \<Rightarrow> string list" where
  "ReclassParser_get_node_classes self ext node_name =
     (case snd (ReclassParser_get_node_data self ext node_name) of
        None \<Rightarrow> []
      | Some d \<Rightarrow> (case nd_classes d of None \<Rightarrow> [] | Some cs \<Rightarrow> cs))"

text \<open>
  \<^verbatim>\<open>PurePath.suffix\<close> and \<^verbatim>\<open>with_suffix('')\<close> on the last component: the suffix starts
  at the last dot of the name, unless that dot is the first or the last character.
\<close>

definition name_suffix :: "string \<Rightarrow> string" where
  "name_suffix name =
     (let ext = rev (takeWhile (\<lambda>c. c \<noteq> CHR ''.'') (rev name))
      in if CHR ''.'' \<in> set name \<and> length ext + 1 < length name \<and> ext \<noteq> []
         then CHR ''.'' # ext else [])"

definition with_suffix_empty :: "path \<Rightarrow> path" where
  "with_suffix_empty p =
     (if p = [] then p
      else butlast p @ [take (length (last p) - length (name_suffix (last p))) (last p)])"

text \<open>\<^verbatim>\<open>nodes_dir.rglob("*.yml")\<close>: the entries below whose name ends in \<^verbatim>\<open>.yml\<close>.\<close>

definition ends_with :: "string \<Rightarrow> string \<Rightarrow> bool" where
  "ends_with s suffix =
     (length suffix \<le> length s \<and> drop (length s - length suffix) s = suffix)"

definition rglob_yml :: "filesystem \<Rightarrow> path \<Rightarrow> path list" where
  "rglob_yml fs nodes_dir = filter (\<lambda>q. ends_with (last q) ''.yml'') (rglob_all fs nodes_dir)"

definition scan_nodes_from_filesystem :: "ReclassParser \<Rightarrow> filesystem \<Rightarrow> string list" where
  "scan_nodes_from_filesystem self fs =
     (let nodes_dir = rp_inventory_dir self @ [''nodes'']
      in if \<not> path_exists fs nodes_dir then []
         else
           sort (map (\<lambda>node_file.
                        let rel_path = drop (length nodes_dir) node_file;
                            node_name = path_str (with_suffix_empty rel_path)
                        in replace_char CHR ''/'' CHR ''.'' node_name)
                     (rglob_yml fs nodes_dir)))"

definition ReclassParser_list_nodes ::
  "ReclassParser \<Rightarrow> classifier \<Rightarrow> filesystem \<Rightarrow> string list" where
  "ReclassParser_list_nodes self ext fs =
     (case rp_reclass_path self of
        None \<Rightarrow> scan_nodes_from_filesystem self fs
      | Some reclass \<Rightarrow>
          let cmd = [reclass, ''-b'', path_str (rp_inventory_dir self), ''--inventory'']
          in if rp_dry_run self then [''example-node1'', ''example-node2'']
             else (case run_inventory ext cmd of
                     Loaded inventory \<Rightarrow>
                       sort (case inv_nodes inventory of None \<Rightarrow> [] | Some nodes \<Rightarrow> map fst nodes)
                   | CalledProcessError \<Rightarrow> scan_nodes_from_filesystem self fs
                   | JSONDecodeError \<Rightarrow> scan_nodes_from_filesystem self fs))"

subsection \<open>merge\_inventories\<close>




section \<open>The per-node accessors on the document as json.loads returns it\<close>

text \<open>
  The typed documents above are what the classifier's interface promises.
  \<^verbatim>\<open>json.loads\<close> itself returns whichever JSON value the process printed, and the
  accessors apply Python's dynamic operations to it. Here the single-node query and the
  four accessors are modelled on that value. Python's \<^verbatim>\<open>None\<close> and JSON's \<^verbatim>\<open>null\<close> are
  \<open>PNone\<close>; a number is an integer (a JSON number with a fraction behaves as a non-zero
  integer does in every operation used here); a dictionary is the list of its items,
  whose keys are distinct.
\<close>

text \<open>The truth value of a Python value, as \<^verbatim>\<open>if\<close> and \<^verbatim>\<open>and\<close> take it.\<close>

definition truthy :: "pyval \<Rightarrow> bool" where
  "truthy v =
     (case v of
        PNone \<Rightarrow> False
      | PBool b \<Rightarrow> b
      | PInt i \<Rightarrow> i \<noteq> 0
      | PStr s \<Rightarrow> s \<noteq> []
      | PList xs \<Rightarrow> xs \<noteq> []
      | PDict items \<Rightarrow> items \<noteq> [])"

fun contains_substring :: "string \<Rightarrow> string \<Rightarrow> bool" where
  "contains_substring k [] = (k = [])"
| "contains_substring k (c # s) = (take (length k) (c # s) = k \<or> contains_substring k s)"

text \<open>
  \<^verbatim>\<open>"k" in x\<close>: a key of a dictionary, an element of a list, a substring of a string;
  \<open>TypeError\<close> for a value that is not iterable.
\<close>

definition py_in :: "string \<Rightarrow> pyval \<Rightarrow> py_error + bool" where
  "py_in k v =
     (case v of
        PDict items \<Rightarrow> Inr (k \<in> set (map fst items))
      | PList xs \<Rightarrow> Inr (PStr k \<in> set xs)
      | PStr s \<Rightarrow> Inr (contains_substring k s)
      | _ \<Rightarrow> Inl TypeError)"

text \<open>
  \<^verbatim>\<open>x["k"]\<close>: the value under the key of a dictionary, \<open>KeyError\<close> without the key;
  \<open>TypeError\<close> for a list or a string, whose indices must be integers, and for a value
  that cannot be subscripted.
\<close>

definition py_getitem :: "pyval \<Rightarrow> string \<Rightarrow> py_error + pyval" where
  "py_getitem v k =
     (case v of
        PDict items \<Rightarrow> (case map_of items k of None \<Rightarrow> Inl KeyError | Some x \<Rightarrow> Inr x)
      | _ \<Rightarrow> Inl TypeError)"

text \<open>\<^verbatim>\<open>x.get("k", default)\<close>: only a dictionary has the method.\<close>

definition py_get :: "pyval \<Rightarrow> string \<Rightarrow> pyval \<Rightarrow> py_error + pyval" where
  "py_get v k dflt =
     (case v of
        PDict items \<Rightarrow> Inr (case map_of items k of None \<Rightarrow> dflt | Some x \<Rightarrow> x)
      | _ \<Rightarrow> Inl AttributeError)"

text \<open>The placeholder document of dry-run mode.\<close>

definition dry_run_document :: pyval where
  "dry_run_document =
     PDict [(''parameters'', PDict []), (''classes'', PList []), (''applications'', PList [])]"

definition ReclassManager_get_node_data_json ::
  "ReclassManager \<Rightarrow> (string list \<Rightarrow> pyval proc_outcome) \<Rightarrow> string
     \<Rightarrow> string list list \<times> pyval" where
  "ReclassManager_get_node_data_json self run node_name =
     (case rm_reclass_path self of
        None \<Rightarrow> ([], PNone)
      | Some reclass \<Rightarrow>
          (case sanitize_node_name node_name of
             Inl e \<Rightarrow> ([], PNone)
           | Inr node_name \<Rightarrow>
               let cmd = [reclass, ''-b'', rm_inventory_dir self, ''-n'', node_name,
                          ''--output'', ''json'']
               in if rm_dry_run self then ([], dry_run_document)
                  else (case run cmd of
                          CalledProcessError \<Rightarrow> ([cmd], PNone)
                        | JSONDecodeError \<Rightarrow> ([cmd], PNone)
                        | Loaded d \<Rightarrow> ([cmd], d))))"

text \<open>
  \<^verbatim>\<open>if node_data and "parameters" in node_data: return node_data["parameters"]\<close>,
  else \<^verbatim>\<open>return {}\<close>; the same for \<^verbatim>\<open>classes\<close> and \<^verbatim>\<open>[]\<close>.
\<close>

definition ReclassManager_get_node_parameters_json ::
  "ReclassManager \<Rightarrow> (string list \<Rightarrow> pyval proc_outcome) \<Rightarrow> string \<Rightarrow> py_error + pyval" where
  "ReclassManager_get_node_parameters_json self run node_name =
     (let node_data = snd (ReclassManager_get_node_data_json self run node_name)
      in if truthy node_data
         then (case py_in ''parameters'' node_data of
                 Inl e \<Rightarrow> Inl e
               | Inr present \<Rightarrow>
                   if present then py_getitem node_data ''parameters'' else Inr (PDict []))
         else Inr (PDict []))"

definition ReclassManager_get_node_classes_json ::
  "ReclassManager \<Rightarrow> (string list \<Rightarrow> pyval proc_outcome) \<Rightarrow> string \<Rightarrow> py_error + pyval" where
  "ReclassManager_get_node_classes_json self run node_name =
     (let node_data = snd (ReclassManager_get_node_data_json self run node_name)
      in if truthy node_data
         then (case py_in ''classes'' node_data of
                 Inl e \<Rightarrow> Inl e
               | Inr present \<Rightarrow>
                   if present then py_getitem node_data ''classes'' else Inr (PList []))
         else Inr (PList []))"

definition ReclassParser_get_node_data_json ::
  "ReclassParser \<Rightarrow> (string list \<Rightarrow> pyval proc_outcome) \<Rightarrow> string
     \<Rightarrow> string list list \<times> pyval" where
  "ReclassParser_get_node_data_json self run node_name =
     (case rp_reclass_path self of
        None \<Rightarrow> ([], PNone)
      | Some reclass \<Rightarrow>
          (case sanitize_node_name node_name of
             Inl e \<Rightarrow> ([], PNone)
           | Inr node_name \<Rightarrow>
               let cmd = [reclass, ''-b'', path_str (rp_inventory_dir self), ''-n'', node_name,
                          ''--output-format'', ''json'']
               in if rp_dry_run self then ([], dry_run_document)
                  else (case run cmd of
                          CalledProcessError \<Rightarrow> ([cmd], PNone)
                        | JSONDecodeError \<Rightarrow> ([cmd], PNone)
                        | Loaded d \<Rightarrow> ([cmd], d))))"

text \<open>
  \<^verbatim>\<open>if node_data: return node_data.get('parameters', {})\<close>, else \<^verbatim>\<open>return {}\<close>; the same
  for \<^verbatim>\<open>classes\<close> and \<^verbatim>\<open>[]\<close>.
\<close>

definition ReclassParser_get_node_parameters_json ::
  "ReclassParser \<Rightarrow> (string list \<Rightarrow> pyval proc_outcome) \<Rightarrow> string \<Rightarrow> py_error + pyval" where
  "ReclassParser_get_node_parameters_json self run node_name =
     (let node_data = snd (ReclassParser_get_node_data_json self run node_name)
      in if truthy node_data then py_get node_data ''parameters'' (PDict [])
         else Inr (PDict []))"

definition ReclassParser_get_node_classes_json ::
  "ReclassParser \<Rightarrow> (string list \<Rightarrow> pyval proc_outcome) \<Rightarrow> string \<Rightarrow> py_error + pyval" where
  "ReclassParser_get_node_classes_json self run node_name =
     (let node_data = snd (ReclassParser_get_node_data_json self run node_name)
      in if truthy node_data then py_get node_data ''classes'' (PList [])
         else Inr (PList []))"

section \<open>Notions of the specification\<close>

text \<open>The filter specification is empty: no filter is supplied, or only empty strings.\<close>

definition no_filter :: "string option \<Rightarrow> string option \<Rightarrow> string option \<Rightarrow> bool" where
  "no_filter nf cf pf = (given nf = None \<and> given cf = None \<and> given pf = None)"

text \<open>
  The strict node-name grammar of the specification: \<^verbatim>\<open>^[A-Za-z0-9._-]+$\<close>, at most
  100 characters.
\<close>

definition node_name_grammar :: "string \<Rightarrow> bool" where
  "node_name_grammar s = (s \<noteq> [] \<and> list_all name_char s \<and> length s \<le> 100)"

text \<open>
  The wildcard rule as the specification words it: each \<^verbatim>\<open>*\<close> stands for any sequence
  of characters, every other character of the pattern for itself, and the pattern has to
  match a prefix of the name; a pattern without \<^verbatim>\<open>*\<close> has to equal the name.
\<close>

fun spec_wild_prefix :: "string \<Rightarrow> string \<Rightarrow> bool" where
  "spec_wild_prefix [] n = True"
| "spec_wild_prefix (p # ps) [] = (p = CHR ''*'' \<and> spec_wild_prefix ps [])"
| "spec_wild_prefix (p # ps) (c # n) =
     (if p = CHR ''*'' then spec_wild_prefix ps (c # n) \<or> spec_wild_prefix (p # ps) n
      else p = c \<and> spec_wild_prefix ps n)"

definition spec_name_match :: "string \<Rightarrow> string \<Rightarrow> bool" where
  "spec_name_match pattern n =
     (if CHR ''*'' \<in> set pattern then spec_wild_prefix pattern n else n = pattern)"

text \<open>
  The expression that \<^verbatim>\<open>re.compile\<close> yields for a pattern after \<^verbatim>\<open>replace("*", ".*")\<close>:
  one item for each character of the pattern.
\<close>

definition pattern_items :: "string \<Rightarrow> re_item list" where
  "pattern_items p = map (\<lambda>c. if c = CHR ''*'' then Star AnyChar else One (re_atom_of c)) p"

text \<open>The items of \<^verbatim>\<open>inventory_data["nodes"]\<close>, empty when there is no such data.\<close>

definition inventory_nodes :: "ReclassManager \<Rightarrow> classifier \<Rightarrow> (string \<times> node_data) list" where
  "inventory_nodes self ext =
     (case snd (ReclassManager_get_inventory_data self ext) of
        None \<Rightarrow> []
      | Some inventory_data \<Rightarrow> (case inv_nodes inventory_data of None \<Rightarrow> [] | Some nodes \<Rightarrow> nodes))"

text \<open>
  The node name of a discovered file as the specification words it: the extension
  \<^verbatim>\<open>.yml\<close> taken off the file name (a file called just \<^verbatim>\<open>.yml\<close> has none), and the
  components of the relative path joined by dots.
\<close>

definition strip_extension :: "string \<Rightarrow> string" where
  "strip_extension name =
     (if ends_with name ''.yml'' \<and> 4 < length name then take (length name - 4) name else name)"

definition dotted_node_name :: "path \<Rightarrow> string" where
  "dotted_node_name rel = join ''.'' (butlast rel @ [strip_extension (last rel)])"

text \<open>No component of a path in the file system contains the separator.\<close>

definition separator_free :: "filesystem \<Rightarrow> bool" where
  "separator_free fs = list_all (\<lambda>(p, e). list_all (\<lambda>c. CHR ''/'' \<notin> set c) p) fs"

text \<open>The content of the regular file at a path, and the command lines a log records.\<close>

definition file_content :: "filesystem \<Rightarrow> path \<Rightarrow> string option" where
  "file_content fs p = (case stat fs p of Some (File c) \<Rightarrow> Some c | _ \<Rightarrow> None)"

definition executed :: "log_line list \<Rightarrow> string list list" where
  "executed lg = concat (map (\<lambda>l. case l of Exec cmd \<Rightarrow> [cmd] | _ \<Rightarrow> []) lg)"

text \<open>
  The three filter steps of \<^verbatim>\<open>filter_nodes\<close> as functions of the candidate set; a step
  whose filter is not given passes the set on.
\<close>

definition node_step :: "string option \<Rightarrow> string set \<Rightarrow> string set" where
  "node_step nf S =
     (case given nf of
        None \<Rightarrow> S
      | Some f \<Rightarrow> (case snd (apply_node_filter f S) of Inl e \<Rightarrow> S | Inr S' \<Rightarrow> S'))"

definition class_step ::
  "ReclassManager \<Rightarrow> classifier \<Rightarrow> string option \<Rightarrow> string set \<Rightarrow> string set" where
  "class_step self ext cf S =
     (case given cf of None \<Rightarrow> S | Some f \<Rightarrow> snd (apply_class_filter self ext f S))"

definition project_step ::
  "ReclassManager \<Rightarrow> classifier \<Rightarrow> string option \<Rightarrow> string set \<Rightarrow> string set" where
  "project_step self ext pf S =
     (case given pf of None \<Rightarrow> S | Some f \<Rightarrow> snd (apply_project_filter self ext f S))"

text \<open>
  The filter-pattern grammar of the specification: the node-name grammar with \<^verbatim>\<open>*\<close>
  permitted as well, at most 100 characters.
\<close>

definition filter_pattern_grammar :: "string \<Rightarrow> bool" where
  "filter_pattern_grammar s = (s \<noteq> [] \<and> list_all filter_char s \<and> length s \<le> 100)"

text \<open>
  A filter value is rejected when, surrounding whitespace set aside, it is empty or has
  a character outside letters, digits, dot, star, underscore and hyphen; its length
  plays no part. The text of the rejection.
\<close>

definition rejected_filter :: "string \<Rightarrow> bool" where
  "rejected_filter f = (strip f = [] \<or> \<not> list_all filter_char (strip f))"

definition rejection_message :: "string \<Rightarrow> string" where
  "rejection_message f =
     (if strip f = [] then ''Filter pattern cannot be empty''
      else ''Invalid filter pattern: '' @ strip f)"

text \<open>
  The warning a filter step logs for the value it is given, and for an optional filter.
\<close>

definition filter_warning :: "string \<Rightarrow> string \<Rightarrow> log_line list" where
  "filter_warning kind f =
     (case validate_filter_pattern f of
        Inl e \<Rightarrow> [Warning (''Invalid '' @ kind @ '' filter: '' @ error_text e)]
      | Inr p \<Rightarrow> [])"

definition step_warning :: "string \<Rightarrow> string option \<Rightarrow> log_line list" where
  "step_warning kind flt = (case given flt of None \<Rightarrow> [] | Some f \<Rightarrow> filter_warning kind f)"

text \<open>
  The command line of the single-node query for a name.
\<close>

definition node_cmd :: "string \<Rightarrow> string \<Rightarrow> string \<Rightarrow> string \<Rightarrow> string list" where
  "node_cmd reclass dir name flag = [reclass, ''-b'', dir, ''-n'', name, flag, ''json'']"

text \<open>
  A node carries a class when its entry in the \<^verbatim>\<open>nodes\<close> mapping of the inventory
  document has the class in its \<^verbatim>\<open>classes\<close> list. The parameters mapping of a node is
  the \<^verbatim>\<open>parameters\<close> entry of the document that the classifier resolves for exactly
  that name; the node belongs to a project when this mapping has the top-level key
  \<^verbatim>\<open>project\<close> with that string as its value.
\<close>

definition has_class :: "ReclassManager \<Rightarrow> classifier \<Rightarrow> string \<Rightarrow> string \<Rightarrow> bool" where
  "has_class self ext c n =
     list_ex (\<lambda>(m, d). m = n \<and> (case nd_classes d of None \<Rightarrow> False
                                   | Some classes \<Rightarrow> c \<in> set classes))
       (inventory_nodes self ext)"

definition node_parameters ::
  "ReclassManager \<Rightarrow> classifier \<Rightarrow> string \<Rightarrow> (string \<times> pyval) list option" where
  "node_parameters self ext n =
     (case rm_reclass_path self of
        None \<Rightarrow> None
      | Some reclass \<Rightarrow>
          (case run_node ext (node_cmd reclass (rm_inventory_dir self) n ''--output'') of
             Loaded d \<Rightarrow> nd_parameters d
           | _ \<Rightarrow> None))"

definition has_project :: "ReclassManager \<Rightarrow> classifier \<Rightarrow> string \<Rightarrow> string \<Rightarrow> bool" where
  "has_project self ext p n =
     (case node_parameters self ext n of
        None \<Rightarrow> False
      | Some parameters \<Rightarrow> map_of parameters ''project'' = Some (PStr p))"




text \<open>The entry of a JSON object under a key, or a default.\<close>

definition entry_or :: "pyval \<Rightarrow> (string \<times> pyval) list \<Rightarrow> string \<Rightarrow> pyval" where
  "entry_or dflt items k = (case map_of items k of None \<Rightarrow> dflt | Some v \<Rightarrow> v)"



text \<open>A typed node document as the JSON object it stands for.\<close>

definition encode_node :: "node_data \<Rightarrow> pyval" where
  "encode_node d =
     PDict ((case nd_parameters d of None \<Rightarrow> [] | Some ps \<Rightarrow> [(''parameters'', PDict ps)]) @
            (case nd_classes d of None \<Rightarrow> [] | Some cs \<Rightarrow> [(''classes'', PList (map PStr cs))]) @
            (case nd_applications d of
               None \<Rightarrow> [] | Some as \<Rightarrow> [(''applications'', PList (map PStr as))]))"

definition printed :: "classifier \<Rightarrow> string list \<Rightarrow> pyval proc_outcome" where
  "printed ext cmd = map_proc_outcome encode_node (run_node ext cmd)"

section \<open>Example inventories\<close>

text \<open>
  The inventory of the specification's filter-precedence property: \<open>a1\<close> (class web,
  project p1), \<open>a2\<close> (class db, project p1), \<open>a3\<close> (class web, project p2), listed
  by the classifier in the order \<open>a3\<close>, \<open>a1\<close>, \<open>a2\<close>.
\<close>

definition example_manager :: ReclassManager where
  "example_manager =
     \<lparr>rm_inventory_dir = ''inventory'', rm_dry_run = False,
      rm_reclass_path = Some ''/usr/bin/reclass''\<rparr>"

definition node_doc :: "string \<Rightarrow> string \<Rightarrow> node_data" where
  "node_doc cls project =
     \<lparr>nd_parameters = Some [(''project'', PStr project)], nd_classes = Some [cls],
      nd_applications = Some []\<rparr>"

definition example_nodes :: "(string \<times> node_data) list" where
  "example_nodes =
     [(''a3'', node_doc ''web'' ''p2''), (''a1'', node_doc ''web'' ''p1''),
      (''a2'', node_doc ''db'' ''p1'')]"

definition classifier_of :: "(string \<times> node_data) list \<Rightarrow> classifier" where
  "classifier_of nodes =
     \<lparr>run_node = (\<lambda>cmd. case cmd of
                      [reclass, b, dir, n, name, out, fmt] \<Rightarrow>
                        (case map_of nodes name of
                           None \<Rightarrow> CalledProcessError
                         | Some d \<Rightarrow> Loaded d)
                    | _ \<Rightarrow> CalledProcessError),
      run_inventory = (\<lambda>cmd. Loaded \<lparr>inv_nodes = Some nodes, inv_classes = Some []\<rparr>)\<rparr>"

definition example_classifier :: classifier where
  "example_classifier = classifier_of example_nodes"

text \<open>
  An inventory whose listing has a name with a leading blank and a name with a blank
  inside, next to the name \<open>a1\<close>.
\<close>

definition blank_names_classifier :: classifier where
  "blank_names_classifier =
     classifier_of
       [('' a1'', node_doc ''web'' ''p2''), (''a1'', node_doc ''web'' ''p1''),
        (''a 1'', node_doc ''db'' ''p1'')]"



text \<open>The inventory of the specification's wildcard property.\<close>

definition wildcard_classifier :: classifier where
  "wildcard_classifier =
     classifier_of
       [(''web-02'', node_doc ''web'' ''p1''), (''db-01'', node_doc ''db'' ''p1''),
        (''web-01'', node_doc ''web'' ''p1'')]"

section \<open>Example file systems\<close>

text \<open>
  Source \<open>srcB\<close> holds one node file and one class file; source \<open>srcA\<close> is not on
  disk. There is no rsync, so the Python copy runs.
\<close>

definition example_fs :: filesystem where
  "example_fs =
     [([''srcB''], Dir), ([''srcB'', ''nodes''], Dir),
      ([''srcB'', ''nodes'', ''prod''], Dir),
      ([''srcB'', ''nodes'', ''prod'', ''web01.yml''], File ''classes: [web]''),
      ([''srcB'', ''nodes'', ''db.yml''], File ''classes: [db]''),
      ([''srcB'', ''classes''], Dir),
      ([''srcB'', ''classes'', ''web.yml''], File ''parameters: {}'')]"

definition example_world :: world where
  "example_world = \<lparr>w_fs = example_fs, w_log = []\<rparr>"

definition no_rsync :: sync_tool where
  "no_rsync = \<lparr>which_rsync = None, run_rsync = (\<lambda>cmd fs. (False, fs))\<rparr>"



definition example_parser :: "bool \<Rightarrow> ReclassParser" where
  "example_parser dry = \<lparr>rp_inventory_dir = [''srcB''], rp_dry_run = dry, rp_reclass_path = None\<rparr>"

text \<open>
  Between two worlds no regular file was created, copied over or removed, and no
  process was run.
\<close>

definition quiet :: "world \<Rightarrow> world \<Rightarrow> bool" where
  "quiet w w' =
     (file_content (w_fs w') = file_content (w_fs w) \<and>
      executed (w_log w') = executed (w_log w))"

section \<open>Properties of the node-name patterns\<close>

text \<open>
  \<^verbatim>\<open>re.compile\<close> never raises on a pattern that comes out of \<^verbatim>\<open>replace("*", ".*")\<close>:
  every \<^verbatim>\<open>*\<close> follows a dot.
\<close>

lemma replace_star_Nil [simp]: "replace_star [] = []"
  by (simp add: replace_star_def)

lemma replace_star_Cons:
  "replace_star (c # s) = (if c = CHR ''*'' then CHR ''.'' # CHR ''*'' # replace_star s else c # replace_star s)"
  by (simp add: replace_star_def)

lemma replace_star_no_leading_star: "replace_star s = e # t \<Longrightarrow> e \<noteq> CHR ''*''"
  by (cases s) (auto simp: replace_star_Cons split: if_splits)

lemma re_compile_plain:
  assumes "c \<noteq> CHR ''*''" and "\<And>e t. rest = e # t \<Longrightarrow> e \<noteq> CHR ''*''"
  shows "re_compile (c # rest) = map_sum id ((#) (One (re_atom_of c))) (re_compile rest)"
  using assms by (cases rest) auto

lemma re_compile_starred:
  assumes "c \<noteq> CHR ''*''" and "\<And>e t. rest = e # t \<Longrightarrow> e \<noteq> CHR ''*''"
  shows "re_compile (c # CHR ''*'' # rest) = map_sum id ((#) (Star (re_atom_of c))) (re_compile rest)"
  using assms by (cases rest) auto

lemma re_compile_replace_star: "re_compile (replace_star p) = Inr (pattern_items p)"
proof (induction p)
  case Nil
  show ?case by (simp add: pattern_items_def)
next
  case (Cons c p)
  have nostar: "\<And>e t. replace_star p = e # t \<Longrightarrow> e \<noteq> CHR ''*''"
    by (rule replace_star_no_leading_star)
  show ?case
  proof (cases "c = CHR ''*''")
    case True
    have "re_compile (CHR ''.'' # CHR ''*'' # replace_star p)
            = map_sum id ((#) (Star (re_atom_of CHR ''.''))) (re_compile (replace_star p))"
      by (rule re_compile_starred) (simp, rule nostar)
    with True Cons show ?thesis
      by (simp add: replace_star_Cons pattern_items_def re_atom_of_def)
  next
    case False
    have "re_compile (c # replace_star p)
            = map_sum id ((#) (One (re_atom_of c))) (re_compile (replace_star p))"
      by (rule re_compile_plain) (rule False, rule nostar)
    with False Cons show ?thesis
      by (simp add: replace_star_Cons pattern_items_def)
  qed
qed

lemma node_matcher_total: "\<exists>accepts. node_matcher p = Inr accepts"
  by (simp add: node_matcher_def re_compile_replace_star)

lemma apply_node_filter_total:
  "\<exists>S'. snd (apply_node_filter f S) = Inr S' \<and> S' \<subseteq> S"
proof (cases "validate_filter_pattern f")
  case (Inl e)
  then show ?thesis by (simp add: apply_node_filter_def)
next
  case (Inr p)
  obtain accepts where "node_matcher p = Inr accepts"
    using node_matcher_total by blast
  with Inr show ?thesis by (auto simp: apply_node_filter_def)
qed


section \<open>filter\_nodes: the shape of the result\<close>

lemma apply_class_filter_subset: "snd (apply_class_filter self ext f S) \<subseteq> S"
  by (auto simp: apply_class_filter_def split: sum.splits)

lemma apply_project_filter_subset: "snd (apply_project_filter self ext f S) \<subseteq> S"
  by (auto simp: apply_project_filter_def split: sum.splits)

lemma node_step_subset: "node_step nf S \<subseteq> S"
proof (cases "given nf")
  case None
  then show ?thesis by (simp add: node_step_def)
next
  case (Some f)
  obtain S' where "snd (apply_node_filter f S) = Inr S'" and "S' \<subseteq> S"
    using apply_node_filter_total [of f S] by blast
  with Some show ?thesis by (simp add: node_step_def)
qed

lemma class_step_subset: "class_step self ext cf S \<subseteq> S"
  using apply_class_filter_subset by (auto simp: class_step_def split: option.splits)

lemma project_step_subset: "project_step self ext pf S \<subseteq> S"
  using apply_project_filter_subset by (auto simp: project_step_def split: option.splits)

lemma fst_apply_node_filter: "fst (apply_node_filter f S) = filter_warning ''node'' f"
  by (simp add: apply_node_filter_def filter_warning_def split: sum.splits)

lemma fst_apply_class_filter:
  "fst (apply_class_filter self ext f S) = filter_warning ''class'' f"
  by (simp add: apply_class_filter_def filter_warning_def split: sum.splits)

lemma fst_apply_project_filter:
  "fst (apply_project_filter self ext f S) = filter_warning ''project'' f"
  by (simp add: apply_project_filter_def filter_warning_def split: sum.splits)

lemma node_step_eq:
  "(case given nf of None \<Rightarrow> ([], Inr S) | Some f \<Rightarrow> apply_node_filter f S)
     = (step_warning ''node'' nf, Inr (node_step nf S))"
proof (cases "given nf")
  case None
  then show ?thesis by (simp add: node_step_def step_warning_def)
next
  case (Some f)
  obtain S' where "snd (apply_node_filter f S) = Inr S'"
    using apply_node_filter_total [of f S] by blast
  with Some show ?thesis
    by (simp add: node_step_def step_warning_def prod_eq_iff fst_apply_node_filter)
qed

lemma class_step_eq:
  "(case given cf of None \<Rightarrow> ([], S) | Some f \<Rightarrow> apply_class_filter self ext f S)
     = (step_warning ''class'' cf, class_step self ext cf S)"
  by (cases "given cf")
     (simp_all add: class_step_def step_warning_def prod_eq_iff fst_apply_class_filter)

lemma project_step_eq:
  "(case given pf of None \<Rightarrow> ([], S) | Some f \<Rightarrow> apply_project_filter self ext f S)
     = (step_warning ''project'' pf, project_step self ext pf S)"
  by (cases "given pf")
     (simp_all add: project_step_def step_warning_def prod_eq_iff fst_apply_project_filter)

lemma filter_nodes_logged_steps:
  "filter_nodes_logged self ext nf cf pf =
     (if no_filter nf cf pf then ([], Inr (ReclassManager_list_nodes self ext))
      else (step_warning ''node'' nf @ step_warning ''class'' cf @ step_warning ''project'' pf,
            Inr (sorted_list_of_set
                   (project_step self ext pf (class_step self ext cf
                      (node_step nf (set (ReclassManager_list_nodes self ext))))))))"
proof (cases "no_filter nf cf pf")
  case True
  then show ?thesis by (simp add: filter_nodes_logged_def no_filter_def)
next
  case False
  then have ne: "\<not> (given nf = None \<and> given cf = None \<and> given pf = None)"
    unfolding no_filter_def .
  have "filter_nodes_logged self ext nf cf pf =
          (step_warning ''node'' nf @ step_warning ''class'' cf @ step_warning ''project'' pf,
           Inr (sorted_list_of_set
                  (project_step self ext pf (class_step self ext cf
                     (node_step nf (set (ReclassManager_list_nodes self ext)))))))"
    unfolding filter_nodes_logged_def Let_def
    by (simp only: ne if_False node_step_eq class_step_eq project_step_eq sum.case prod.case)
  with False show ?thesis by simp
qed

lemma filter_nodes_steps:
  "filter_nodes self ext nf cf pf =
     Inr (if no_filter nf cf pf then ReclassManager_list_nodes self ext
          else sorted_list_of_set
                 (project_step self ext pf (class_step self ext cf
                    (node_step nf (set (ReclassManager_list_nodes self ext))))))"
  by (simp add: filter_nodes_def filter_nodes_logged_steps)

lemma steps_subset:
  "project_step self ext pf (class_step self ext cf (node_step nf S)) \<subseteq> S"
  using project_step_subset class_step_subset node_step_subset by blast

lemma steps_finite:
  "finite (project_step self ext pf (class_step self ext cf (node_step nf (set xs))))"
  using steps_subset by (rule finite_subset) simp

lemma filter_nodes_some_filter:
  assumes "\<not> no_filter nf cf pf"
  shows "\<exists>S. S \<subseteq> set (ReclassManager_list_nodes self ext) \<and>
             filter_nodes self ext nf cf pf = Inr (sorted_list_of_set S)"
proof (intro exI conjI)
  show "project_step self ext pf (class_step self ext cf
          (node_step nf (set (ReclassManager_list_nodes self ext))))
        \<subseteq> set (ReclassManager_list_nodes self ext)"
    by (rule steps_subset)
  show "filter_nodes self ext nf cf pf =
          Inr (sorted_list_of_set (project_step self ext pf (class_step self ext cf
                 (node_step nf (set (ReclassManager_list_nodes self ext))))))"
    using assms by (simp add: filter_nodes_steps)
qed

text \<open>
  C1 (as amended). \<^verbatim>\<open>filter_nodes\<close> always returns a list. With at least one non-empty
  filter the list is strictly sorted, free of duplicates and drawn from the node listing,
  whatever the order of the listing; with the empty specification it is the node listing
  itself, in the listing's order.
\<close>

theorem filter_nodes_sorted:
  "\<exists>xs. filter_nodes self ext nf cf pf = Inr xs \<and>
        (if no_filter nf cf pf then xs = ReclassManager_list_nodes self ext
         else sorted_wrt (<) xs \<and> distinct xs \<and> set xs \<subseteq> set (ReclassManager_list_nodes self ext))"
proof (cases "no_filter nf cf pf")
  case True
  then have "filter_nodes self ext nf cf pf = Inr (ReclassManager_list_nodes self ext)"
    by (simp add: filter_nodes_steps)
  with True show ?thesis by simp
next
  case False
  from filter_nodes_some_filter [OF False, of self ext]
  obtain S where sub: "S \<subseteq> set (ReclassManager_list_nodes self ext)"
    and eq: "filter_nodes self ext nf cf pf = Inr (sorted_list_of_set S)"
    by (elim exE conjE)
  from sub have fin: "finite S" by (rule finite_subset) simp
  have "sorted_wrt (<) (sorted_list_of_set S)" by (rule strict_sorted_list_of_set)
  moreover have "distinct (sorted_list_of_set S)" by (rule distinct_sorted_list_of_set)
  moreover have "set (sorted_list_of_set S) \<subseteq> set (ReclassManager_list_nodes self ext)"
    using fin sub by (simp only: set_sorted_list_of_set)
  ultimately show ?thesis using False eq by (intro exI [of _ "sorted_list_of_set S"]) (simp only: if_False simp_thms)
qed


text \<open>The theorem at the example inventory, filtered by the class web.\<close>

theorem filter_nodes_sorted_witness:
  "\<exists>xs. filter_nodes example_manager example_classifier None (Some ''web'') None = Inr xs
        \<and> xs = [''a1'', ''a3''] \<and> sorted_wrt (<) xs \<and> distinct xs"
proof -
  have ev: "filter_nodes example_manager example_classifier None (Some ''web'') None
              = Inr [''a1'', ''a3'']"
    by code_simp
  have nf: "\<not> no_filter None (Some ''web'') None"
    by (simp add: no_filter_def)
  from filter_nodes_sorted [of example_manager example_classifier None "Some ''web''" None]
  obtain xs where "filter_nodes example_manager example_classifier None (Some ''web'') None = Inr xs"
    and "sorted_wrt (<) xs \<and> distinct xs
           \<and> set xs \<subseteq> set (ReclassManager_list_nodes example_manager example_classifier)"
    using nf by (elim exE conjE) (simp only: if_False)
  with ev show ?thesis by (intro exI [of _ xs]) simp
qed

text \<open>
  C1 as stated fails for the empty specification: the example listing comes back in the
  classifier's order, which is not sorted.
\<close>

theorem filter_nodes_empty_spec_unsorted:
  "filter_nodes example_manager example_classifier None None None = Inr [''a3'', ''a1'', ''a2'']
   \<and> \<not> sorted_wrt (<) [''a3'', ''a1'', ''a2'']"
  by (simp add: filter_nodes_def filter_nodes_logged_def ReclassManager_list_nodes_def
      ReclassManager_get_inventory_data_def example_manager_def example_classifier_def
      classifier_of_def example_nodes_def)

section \<open>Validation of node names\<close>

text \<open>
  After \<^verbatim>\<open>strip()\<close> a string does not end in whitespace, so the newline that Python's
  \<^verbatim>\<open>$\<close> tolerates cannot occur: \<^verbatim>\<open>sanitize_node_name\<close> accepts exactly the strings whose
  stripped form is in the grammar, and returns the stripped form.
\<close>

lemma newline_isspace: "py_isspace (CHR 0x0A)"
  by (simp add: py_isspace_def)

lemma strip_last_not_space: "strip s \<noteq> [] \<Longrightarrow> \<not> py_isspace (last (strip s))"
proof -
  assume ne: "strip s \<noteq> []"
  let ?t = "dropWhile py_isspace (rev (dropWhile py_isspace s))"
  from ne have t: "?t \<noteq> []" by (simp add: strip_def)
  then have "\<not> py_isspace (hd ?t)" by (rule hd_dropWhile)
  moreover have "last (strip s) = hd ?t" using t by (simp add: strip_def last_rev)
  ultimately show ?thesis by simp
qed

lemma re_match_class_plus_strip:
  "re_match_class_plus cls (strip s) = (strip s \<noteq> [] \<and> list_all cls (strip s))"
proof (cases "strip s = []")
  case True
  then show ?thesis by (simp add: re_match_class_plus_def)
next
  case False
  then have "last (strip s) \<noteq> CHR 0x0A"
    using strip_last_not_space newline_isspace by metis
  with False show ?thesis by (simp add: re_match_class_plus_def)
qed

lemma strip_Nil [simp]: "strip [] = []"
  by (simp add: strip_def)

lemma sanitize_node_name_grammar:
  "sanitize_node_name name =
     (if node_name_grammar (strip name) then Inr (strip name)
      else Inl (case sanitize_node_name name of Inl e \<Rightarrow> e | Inr n \<Rightarrow> ValidationError []))"
  by (cases "name = []")
     (auto simp: sanitize_node_name_def node_name_grammar_def re_match_class_plus_strip Let_def)

lemma sanitize_node_name_Inr:
  "sanitize_node_name name = Inr n \<longleftrightarrow> node_name_grammar (strip name) \<and> n = strip name"
  by (subst sanitize_node_name_grammar) auto

lemma sanitize_node_name_Inl:
  "(\<exists>e. sanitize_node_name name = Inl e) \<longleftrightarrow> \<not> node_name_grammar (strip name)"
  by (subst sanitize_node_name_grammar) auto

text \<open>
  C7 (as amended). When the whitespace-stripped form of the name is outside the strict
  grammar, \<^verbatim>\<open>get_node_data\<close> returns an absent result and runs no process. Every command
  line it does run carries the stripped name, and that name is in the grammar.
\<close>

theorem get_node_data_validates_first:
  "(\<not> node_name_grammar (strip name) \<longrightarrow>
      ReclassManager_get_node_data self ext name = ([], None)) \<and>
   (\<forall>cmd \<in> set (fst (ReclassManager_get_node_data self ext name)).
      node_name_grammar (strip name) \<and>
      (\<exists>reclass. cmd = [reclass, ''-b'', rm_inventory_dir self, ''-n'', strip name,
                        ''--output'', ''json'']))"
proof (cases "sanitize_node_name name")
  case (Inl e)
  then have "\<not> node_name_grammar (strip name)"
    using sanitize_node_name_Inl by blast
  with Inl show ?thesis
    by (simp add: ReclassManager_get_node_data_def split: option.splits)
next
  case (Inr n)
  then have "node_name_grammar (strip name)" and "n = strip name"
    by (simp_all add: sanitize_node_name_Inr)
  with Inr show ?thesis
    by (auto simp: ReclassManager_get_node_data_def Let_def split: option.splits proc_outcome.splits)
qed

text \<open>
  The theorem at the example manager: a name with a shell metacharacter is rejected with
  no process run; for the name \<open>a1\<close> the classifier is run with \<open>a1\<close>.
\<close>

theorem get_node_data_validates_first_witness:
  "\<not> node_name_grammar (strip ''web;01'') \<and>
   ReclassManager_get_node_data example_manager example_classifier ''web;01'' = ([], None) \<and>
   fst (ReclassManager_get_node_data example_manager example_classifier ''a1'')
     = [[''/usr/bin/reclass'', ''-b'', ''inventory'', ''-n'', ''a1'', ''--output'', ''json'']] \<and>
   node_name_grammar (strip ''a1'')"
proof -
  have bad: "\<not> node_name_grammar (strip ''web;01'')" by code_simp
  have ev: "fst (ReclassManager_get_node_data example_manager example_classifier ''a1'')
     = [[''/usr/bin/reclass'', ''-b'', ''inventory'', ''-n'', ''a1'', ''--output'', ''json'']]"
    by code_simp
  note t1 = get_node_data_validates_first [of "''web;01''" example_manager example_classifier]
  note t2 = get_node_data_validates_first [of "''a1''" example_manager example_classifier]
  from t1 bad have "ReclassManager_get_node_data example_manager example_classifier ''web;01'' = ([], None)"
    by blast
  moreover have "node_name_grammar (strip ''a1'')"
  proof -
    from t2 have "\<forall>cmd \<in> set (fst (ReclassManager_get_node_data example_manager
                     example_classifier ''a1'')). node_name_grammar (strip ''a1'')"
      by blast
    then show ?thesis unfolding ev by simp
  qed
  ultimately show ?thesis using bad ev by blast
qed

text \<open>
  C7 as stated fails for a name with surrounding whitespace: \<open>'' web01''\<close> has a character
  outside the grammar, and the classifier is run all the same, with the stripped name.
\<close>

theorem get_node_data_strips_whitespace:
  "\<not> node_name_grammar '' web01'' \<and>
   ReclassManager_get_node_data example_manager example_classifier '' web01'' =
     ([[''/usr/bin/reclass'', ''-b'', ''inventory'', ''-n'', ''web01'', ''--output'', ''json'']], None)"
  by code_simp
section \<open>filter\_nodes: invalid filters\<close>

lemma validate_filter_pattern_rejected:
  "validate_filter_pattern f =
     (if rejected_filter f then Inl (ValidationError (rejection_message f)) else Inr (strip f))"
  by (simp add: validate_filter_pattern_def rejected_filter_def rejection_message_def Let_def
      re_match_class_plus_strip)

lemma filter_warning_rejected:
  "filter_warning kind f =
     (if rejected_filter f
      then [Warning (''Invalid '' @ kind @ '' filter: '' @ rejection_message f)] else [])"
  by (simp add: filter_warning_def validate_filter_pattern_rejected error_text_def)

lemma no_filter_steps_id:
  "no_filter nf cf pf \<Longrightarrow> project_step self ext pf (class_step self ext cf (node_step nf S)) = S"
  by (simp add: no_filter_def project_step_def class_step_def node_step_def)

lemma rejected_node_step: "rejected_filter f \<Longrightarrow> node_step (Some f) S = S"
  by (simp add: node_step_def apply_node_filter_def validate_filter_pattern_rejected)

lemma rejected_class_step: "rejected_filter f \<Longrightarrow> class_step self ext (Some f) S = S"
  by (simp add: class_step_def apply_class_filter_def validate_filter_pattern_rejected)

lemma rejected_project_step: "rejected_filter f \<Longrightarrow> project_step self ext (Some f) S = S"
  by (simp add: project_step_def apply_project_filter_def validate_filter_pattern_rejected)

lemma step_None [simp]:
  "node_step None S = S" "class_step self ext None S = S" "project_step self ext None S = S"
  by (simp_all add: node_step_def class_step_def project_step_def)

lemma rejected_step_warning:
  "rejected_filter f \<Longrightarrow> f \<noteq> [] \<Longrightarrow>
     step_warning kind (Some f)
       = [Warning (''Invalid '' @ kind @ '' filter: '' @ rejection_message f)]"
  by (cases f) (simp_all add: step_warning_def filter_warning_rejected)

lemma rejected_logged:
  assumes "rejected_filter f" and "f \<noteq> []"
  shows "Warning (''Invalid node filter: '' @ rejection_message f)
           \<in> set (fst (filter_nodes_logged self ext (Some f) cf pf))"
    and "Warning (''Invalid class filter: '' @ rejection_message f)
           \<in> set (fst (filter_nodes_logged self ext nf (Some f) pf))"
    and "Warning (''Invalid project filter: '' @ rejection_message f)
           \<in> set (fst (filter_nodes_logged self ext nf cf (Some f)))"
proof -
  from assms(2) have g: "given (Some f) = Some f" by (cases f) simp_all
  then have n: "\<not> no_filter (Some f) cf pf" "\<not> no_filter nf (Some f) pf"
    "\<not> no_filter nf cf (Some f)"
    by (simp_all add: no_filter_def)
  have w: "step_warning ''node'' (Some f)
             = [Warning (''Invalid node filter: '' @ rejection_message f)]"
    "step_warning ''class'' (Some f)
             = [Warning (''Invalid class filter: '' @ rejection_message f)]"
    "step_warning ''project'' (Some f)
             = [Warning (''Invalid project filter: '' @ rejection_message f)]"
    using rejected_step_warning [OF assms] by simp_all
  show "Warning (''Invalid node filter: '' @ rejection_message f)
           \<in> set (fst (filter_nodes_logged self ext (Some f) cf pf))"
    using n(1) by (simp add: filter_nodes_logged_steps w(1))
  show "Warning (''Invalid class filter: '' @ rejection_message f)
           \<in> set (fst (filter_nodes_logged self ext nf (Some f) pf))"
    using n(2) by (simp add: filter_nodes_logged_steps w(2))
  show "Warning (''Invalid project filter: '' @ rejection_message f)
           \<in> set (fst (filter_nodes_logged self ext nf cf (Some f)))"
    using n(3) by (simp add: filter_nodes_logged_steps w(3))
qed

lemma empty_filter_logged:
  "filter_nodes_logged self ext (Some []) cf pf = filter_nodes_logged self ext None cf pf"
  "filter_nodes_logged self ext nf (Some []) pf = filter_nodes_logged self ext nf None pf"
  "filter_nodes_logged self ext nf cf (Some []) = filter_nodes_logged self ext nf cf None"
  by (simp_all add: filter_nodes_logged_steps no_filter_def step_warning_def node_step_def
      class_step_def project_step_def)

lemma skipped_result:
  assumes same: "project_step self ext pf' (class_step self ext cf' (node_step nf' S))
                 = project_step self ext pf (class_step self ext cf (node_step nf S))"
    and S: "S = set (ReclassManager_list_nodes self ext)"
    and nf: "no_filter nf' cf' pf' \<longleftrightarrow> no_filter nf cf pf \<and> skip"
  shows "\<exists>xs. filter_nodes self ext nf cf pf = Inr xs \<and>
              filter_nodes self ext nf' cf' pf'
                = Inr (if skip then xs else sorted_list_of_set (set xs)) \<and>
              (\<not> no_filter nf cf pf \<longrightarrow> sorted_list_of_set (set xs) = xs)"
proof (cases "no_filter nf cf pf")
  case True
  then have id: "project_step self ext pf (class_step self ext cf (node_step nf S)) = S"
    by (rule no_filter_steps_id)
  show ?thesis
  proof (cases skip)
    case True
    with \<open>no_filter nf cf pf\<close> nf show ?thesis by (simp add: filter_nodes_steps)
  next
    case False
    with nf have "\<not> no_filter nf' cf' pf'" by simp
    with \<open>no_filter nf cf pf\<close> False same id S show ?thesis
      by (simp add: filter_nodes_steps)
  qed
next
  case False
  let ?R = "project_step self ext pf (class_step self ext cf (node_step nf S))"
  from False nf have nf': "\<not> no_filter nf' cf' pf'" by simp
  have fin: "finite ?R" unfolding S by (rule steps_finite)
  then have idem: "sorted_list_of_set (set (sorted_list_of_set ?R)) = sorted_list_of_set ?R"
    by simp
  have a: "filter_nodes self ext nf cf pf = Inr (sorted_list_of_set ?R)"
    using False by (simp add: filter_nodes_steps S)
  have b: "filter_nodes self ext nf' cf' pf' = Inr (sorted_list_of_set ?R)"
    using nf' same by (simp add: filter_nodes_steps S)
  show ?thesis
    using a b idem False by (intro exI [of _ "sorted_list_of_set ?R"]) simp
qed

text \<open>
  C4 (as amended). Let a filter value be rejected: with surrounding whitespace set aside
  it is empty or has a character outside letters, digits, dot, star, underscore and
  hyphen. In whichever of the three positions it stands, \<^verbatim>\<open>filter_nodes\<close> does not raise,
  and its result is the sorted, duplicate-free form of the result \<open>xs\<close> obtained with
  that filter omitted (\<open>xs\<close> itself when the value is the empty string); the two results
  are the same list whenever another non-empty filter remains. Unless the value is the
  empty string, the warning that names the filter and the reason is logged; the empty
  string counts as no filter, and the log is then the log of the call without it.
\<close>

theorem invalid_filter_skipped:
  assumes "rejected_filter f"
  shows
    "(\<exists>xs. filter_nodes self ext None cf pf = Inr xs \<and>
           filter_nodes self ext (Some f) cf pf
             = Inr (if f = [] then xs else sorted_list_of_set (set xs)) \<and>
           (\<not> no_filter None cf pf \<longrightarrow> sorted_list_of_set (set xs) = xs)) \<and>
     (\<exists>xs. filter_nodes self ext nf None pf = Inr xs \<and>
           filter_nodes self ext nf (Some f) pf
             = Inr (if f = [] then xs else sorted_list_of_set (set xs)) \<and>
           (\<not> no_filter nf None pf \<longrightarrow> sorted_list_of_set (set xs) = xs)) \<and>
     (\<exists>xs. filter_nodes self ext nf cf None = Inr xs \<and>
           filter_nodes self ext nf cf (Some f)
             = Inr (if f = [] then xs else sorted_list_of_set (set xs)) \<and>
           (\<not> no_filter nf cf None \<longrightarrow> sorted_list_of_set (set xs) = xs)) \<and>
     (if f = []
      then fst (filter_nodes_logged self ext (Some f) cf pf)
             = fst (filter_nodes_logged self ext None cf pf) \<and>
           fst (filter_nodes_logged self ext nf (Some f) pf)
             = fst (filter_nodes_logged self ext nf None pf) \<and>
           fst (filter_nodes_logged self ext nf cf (Some f))
             = fst (filter_nodes_logged self ext nf cf None)
      else Warning (''Invalid node filter: '' @ rejection_message f)
             \<in> set (fst (filter_nodes_logged self ext (Some f) cf pf)) \<and>
           Warning (''Invalid class filter: '' @ rejection_message f)
             \<in> set (fst (filter_nodes_logged self ext nf (Some f) pf)) \<and>
           Warning (''Invalid project filter: '' @ rejection_message f)
             \<in> set (fst (filter_nodes_logged self ext nf cf (Some f))))"
proof (intro conjI)
  let ?S = "set (ReclassManager_list_nodes self ext)"
  show "\<exists>xs. filter_nodes self ext None cf pf = Inr xs \<and>
           filter_nodes self ext (Some f) cf pf
             = Inr (if f = [] then xs else sorted_list_of_set (set xs)) \<and>
           (\<not> no_filter None cf pf \<longrightarrow> sorted_list_of_set (set xs) = xs)"
  proof (rule skipped_result [where S = ?S])
    show "project_step self ext pf (class_step self ext cf (node_step (Some f) ?S))
          = project_step self ext pf (class_step self ext cf (node_step None ?S))"
      using assms by (simp add: rejected_node_step)
    show "no_filter (Some f) cf pf \<longleftrightarrow> no_filter None cf pf \<and> f = []"
      by (auto simp: no_filter_def)
  qed simp
  show "\<exists>xs. filter_nodes self ext nf None pf = Inr xs \<and>
           filter_nodes self ext nf (Some f) pf
             = Inr (if f = [] then xs else sorted_list_of_set (set xs)) \<and>
           (\<not> no_filter nf None pf \<longrightarrow> sorted_list_of_set (set xs) = xs)"
  proof (rule skipped_result [where S = ?S])
    show "project_step self ext pf (class_step self ext (Some f) (node_step nf ?S))
          = project_step self ext pf (class_step self ext None (node_step nf ?S))"
      using assms by (simp add: rejected_class_step)
    show "no_filter nf (Some f) pf \<longleftrightarrow> no_filter nf None pf \<and> f = []"
      by (auto simp: no_filter_def)
  qed simp
  show "\<exists>xs. filter_nodes self ext nf cf None = Inr xs \<and>
           filter_nodes self ext nf cf (Some f)
             = Inr (if f = [] then xs else sorted_list_of_set (set xs)) \<and>
           (\<not> no_filter nf cf None \<longrightarrow> sorted_list_of_set (set xs) = xs)"
  proof (rule skipped_result [where S = ?S])
    show "project_step self ext (Some f) (class_step self ext cf (node_step nf ?S))
          = project_step self ext None (class_step self ext cf (node_step nf ?S))"
      using assms by (simp add: rejected_project_step)
    show "no_filter nf cf (Some f) \<longleftrightarrow> no_filter nf cf None \<and> f = []"
      by (auto simp: no_filter_def)
  qed simp
  show "if f = []
      then fst (filter_nodes_logged self ext (Some f) cf pf)
             = fst (filter_nodes_logged self ext None cf pf) \<and>
           fst (filter_nodes_logged self ext nf (Some f) pf)
             = fst (filter_nodes_logged self ext nf None pf) \<and>
           fst (filter_nodes_logged self ext nf cf (Some f))
             = fst (filter_nodes_logged self ext nf cf None)
      else Warning (''Invalid node filter: '' @ rejection_message f)
             \<in> set (fst (filter_nodes_logged self ext (Some f) cf pf)) \<and>
           Warning (''Invalid class filter: '' @ rejection_message f)
             \<in> set (fst (filter_nodes_logged self ext nf (Some f) pf)) \<and>
           Warning (''Invalid project filter: '' @ rejection_message f)
             \<in> set (fst (filter_nodes_logged self ext nf cf (Some f)))"
  proof (cases "f = []")
    case True
    then show ?thesis by (simp add: empty_filter_logged)
  next
    case False
    note w = rejected_logged [OF assms False]
    from False w(1) [of self ext cf pf] w(2) [of self ext nf pf] w(3) [of self ext nf cf]
    show ?thesis
      by (simp only: if_False simp_thms)
  qed
qed

text \<open>
  The theorem at the example inventory: a project filter with a shell metacharacter next
  to the class filter web changes nothing, and its warning is logged.
\<close>

theorem invalid_filter_skipped_witness:
  "rejected_filter ''p;1'' \<and>
   filter_nodes example_manager example_classifier None (Some ''web'') (Some ''p;1'')
     = Inr [''a1'', ''a3''] \<and>
   filter_nodes example_manager example_classifier None (Some ''web'') None
     = Inr [''a1'', ''a3''] \<and>
   Warning ''Invalid project filter: Invalid filter pattern: p;1''
     \<in> set (fst (filter_nodes_logged example_manager example_classifier
                   None (Some ''web'') (Some ''p;1'')))"
proof -
  have v: "rejected_filter ''p;1''"
    by code_simp
  have m: "rejection_message ''p;1'' = ''Invalid filter pattern: p;1''"
    by code_simp
  have ev: "filter_nodes example_manager example_classifier None (Some ''web'') None
              = Inr [''a1'', ''a3'']"
    by code_simp
  have nf: "\<not> no_filter None (Some ''web'') None"
    by (simp add: no_filter_def)
  note t = invalid_filter_skipped
         [OF v, where self = example_manager and ext = example_classifier
            and nf = None and cf = "Some ''web''"]
  from t [THEN conjunct2, THEN conjunct2, THEN conjunct1]
  obtain xs where a: "filter_nodes example_manager example_classifier None (Some ''web'') None = Inr xs"
    and b: "filter_nodes example_manager example_classifier None (Some ''web'') (Some ''p;1'')
              = Inr (if ''p;1'' = [] then xs else sorted_list_of_set (set xs))"
    and c: "\<not> no_filter None (Some ''web'') None \<longrightarrow> sorted_list_of_set (set xs) = xs"
    by (elim exE conjE)
  from a ev have xs: "xs = [''a1'', ''a3'']" by simp
  from c nf have "sorted_list_of_set (set xs) = xs" by blast
  with b xs have r: "filter_nodes example_manager example_classifier None (Some ''web'') (Some ''p;1'')
              = Inr [''a1'', ''a3'']"
    by simp
  have ne: "''p;1'' \<noteq> []" by simp
  from t [THEN conjunct2, THEN conjunct2, THEN conjunct2] ne
  have "Warning (''Invalid project filter: '' @ rejection_message ''p;1'')
          \<in> set (fst (filter_nodes_logged example_manager example_classifier
                        None (Some ''web'') (Some ''p;1'')))"
    by (simp only: if_False simp_thms)
  then have l: "Warning ''Invalid project filter: Invalid filter pattern: p;1''
          \<in> set (fst (filter_nodes_logged example_manager example_classifier
                        None (Some ''web'') (Some ''p;1'')))"
    unfolding m by simp
  from v r ev l show ?thesis by (intro conjI)
qed

text \<open>
  C4 as stated fails in four ways. An invalid filter that is the only one makes the
  result the sorted listing, while the result without any filter is the listing in the
  classifier's order. A value of 101 characters is outside the specification's grammar
  but is accepted, applied without a warning, and here empties the result. A value with
  surrounding whitespace is outside the grammar but is applied in its stripped form,
  without a warning. The empty string is outside the grammar and is skipped without a
  warning.
\<close>

theorem invalid_filter_not_always_skipped_with_warning:
  "\<not> filter_pattern_grammar ''a;b'' \<and>
   filter_nodes example_manager example_classifier None (Some ''a;b'') None
     = Inr [''a1'', ''a2'', ''a3''] \<and>
   filter_nodes example_manager example_classifier None None None
     = Inr [''a3'', ''a1'', ''a2''] \<and>
   \<not> filter_pattern_grammar (replicate 101 CHR ''a'') \<and>
   filter_nodes_logged example_manager example_classifier
       None (Some (replicate 101 CHR ''a'')) None = ([], Inr []) \<and>
   \<not> filter_pattern_grammar '' web'' \<and>
   filter_nodes_logged example_manager example_classifier None (Some '' web'') None
     = ([], Inr [''a1'', ''a3'']) \<and>
   \<not> filter_pattern_grammar [] \<and>
   filter_nodes_logged example_manager example_classifier None (Some []) (Some ''p1'')
     = ([], Inr [''a1'', ''a2'']) \<and>
   filter_nodes_logged example_manager example_classifier None None (Some ''p1'')
     = ([], Inr [''a1'', ''a2''])"
  by code_simp
section \<open>The per-node accessors\<close>

text \<open>The document of the single-node query, case by case.\<close>

lemma manager_document:
  "snd (ReclassManager_get_node_data_json m run name) =
     (case rm_reclass_path m of
        None \<Rightarrow> PNone
      | Some reclass \<Rightarrow>
          if \<not> node_name_grammar (strip name) then PNone
          else if rm_dry_run m then dry_run_document
          else (case run (node_cmd reclass (rm_inventory_dir m) (strip name) ''--output'') of
                  Loaded d \<Rightarrow> d | _ \<Rightarrow> PNone))"
proof (cases "sanitize_node_name name")
  case (Inl e)
  then have "\<not> node_name_grammar (strip name)" using sanitize_node_name_Inl by blast
  with Inl show ?thesis
    by (simp add: ReclassManager_get_node_data_json_def split: option.splits)
next
  case (Inr n)
  then have "node_name_grammar (strip name)" and "n = strip name"
    by (simp_all add: sanitize_node_name_Inr)
  with Inr show ?thesis
    by (simp add: ReclassManager_get_node_data_json_def node_cmd_def Let_def
        split: option.splits proc_outcome.splits)
qed

lemma parser_document:
  "snd (ReclassParser_get_node_data_json p run name) =
     (case rp_reclass_path p of
        None \<Rightarrow> PNone
      | Some reclass \<Rightarrow>
          if \<not> node_name_grammar (strip name) then PNone
          else if rp_dry_run p then dry_run_document
          else (case run (node_cmd reclass (path_str (rp_inventory_dir p)) (strip name)
                            ''--output-format'') of
                  Loaded d \<Rightarrow> d | _ \<Rightarrow> PNone))"
proof (cases "sanitize_node_name name")
  case (Inl e)
  then have "\<not> node_name_grammar (strip name)" using sanitize_node_name_Inl by blast
  with Inl show ?thesis
    by (simp add: ReclassParser_get_node_data_json_def split: option.splits)
next
  case (Inr n)
  then have "node_name_grammar (strip name)" and "n = strip name"
    by (simp_all add: sanitize_node_name_Inr)
  with Inr show ?thesis
    by (simp add: ReclassParser_get_node_data_json_def node_cmd_def Let_def
        split: option.splits proc_outcome.splits)
qed



text \<open>The accessors on an absent document and on a JSON object.\<close>

lemma map_of_present: "k \<in> fst ` set items \<Longrightarrow> \<exists>v. map_of items k = Some v"
  by (induction items) auto

lemma map_of_absent: "k \<notin> fst ` set items \<Longrightarrow> map_of items k = None"
  by (induction items) auto

lemma manager_accessors_absent:
  assumes "snd (ReclassManager_get_node_data_json m run name) = PNone"
  shows "ReclassManager_get_node_parameters_json m run name = Inr (PDict [])"
    and "ReclassManager_get_node_classes_json m run name = Inr (PList [])"
  using assms
  by (simp_all add: ReclassManager_get_node_parameters_json_def
      ReclassManager_get_node_classes_json_def truthy_def)

lemma parser_accessors_absent:
  assumes "snd (ReclassParser_get_node_data_json p run name) = PNone"
  shows "ReclassParser_get_node_parameters_json p run name = Inr (PDict [])"
    and "ReclassParser_get_node_classes_json p run name = Inr (PList [])"
  using assms
  by (simp_all add: ReclassParser_get_node_parameters_json_def
      ReclassParser_get_node_classes_json_def truthy_def)

lemma object_entry:
  "(if truthy (PDict items)
    then (case py_in k (PDict items) of
            Inl e \<Rightarrow> Inl e
          | Inr present \<Rightarrow> if present then py_getitem (PDict items) k else Inr dflt)
    else Inr dflt) = Inr (entry_or dflt items k)"
proof (cases "map_of items k")
  case None
  then have nk: "k \<notin> fst ` set items" by (simp add: map_of_eq_None_iff)
  have i: "py_in k (PDict items) = Inr False" using nk by (simp add: py_in_def)
  have e: "entry_or dflt items k = dflt" using None by (simp add: entry_or_def)
  show ?thesis unfolding i e by simp
next
  case (Some v)
  then have "(k, v) \<in> set items" by (rule map_of_SomeD)
  then have ne: "items \<noteq> []" and mem: "k \<in> fst ` set items" by (auto intro: rev_image_eqI)
  have t: "truthy (PDict items)" using ne by (simp add: truthy_def)
  have i: "py_in k (PDict items) = Inr True" using mem by (simp add: py_in_def)
  have g: "py_getitem (PDict items) k = Inr v" using Some by (simp add: py_getitem_def)
  have e: "entry_or dflt items k = v" using Some by (simp add: entry_or_def)
  show ?thesis unfolding i g e using t by simp
qed

lemma object_get:
  "(if truthy (PDict items) then py_get (PDict items) k dflt else Inr dflt)
     = Inr (entry_or dflt items k)"
  by (cases items) (simp_all add: truthy_def py_get_def entry_or_def)

lemma manager_accessors_object:
  assumes "snd (ReclassManager_get_node_data_json m run name) = PDict items"
  shows "ReclassManager_get_node_parameters_json m run name
           = Inr (entry_or (PDict []) items ''parameters'')"
    and "ReclassManager_get_node_classes_json m run name
           = Inr (entry_or (PList []) items ''classes'')"
  unfolding ReclassManager_get_node_parameters_json_def ReclassManager_get_node_classes_json_def
    Let_def assms
  by (rule object_entry)+

lemma parser_accessors_object:
  assumes "snd (ReclassParser_get_node_data_json p run name) = PDict items"
  shows "ReclassParser_get_node_parameters_json p run name
           = Inr (entry_or (PDict []) items ''parameters'')"
    and "ReclassParser_get_node_classes_json p run name
           = Inr (entry_or (PList []) items ''classes'')"
  unfolding ReclassParser_get_node_parameters_json_def ReclassParser_get_node_classes_json_def
    Let_def assms
  by (rule object_get)+







text \<open>
  On the documents of the classifier's interface the accessors on the loaded value
  return what the typed accessors return.
\<close>

lemma encode_node_entries:
  "entry_or (PDict []) (case encode_node d of PDict items \<Rightarrow> items | _ \<Rightarrow> []) ''parameters''
     = PDict (case nd_parameters d of None \<Rightarrow> [] | Some ps \<Rightarrow> ps)"
  "entry_or (PList []) (case encode_node d of PDict items \<Rightarrow> items | _ \<Rightarrow> []) ''classes''
     = PList (map PStr (case nd_classes d of None \<Rightarrow> [] | Some cs \<Rightarrow> cs))"
  by (simp_all add: encode_node_def entry_or_def split: option.splits)

lemma manager_typed:
  "snd (ReclassManager_get_node_data m ext name) =
     (case rm_reclass_path m of
        None \<Rightarrow> None
      | Some reclass \<Rightarrow>
          if \<not> node_name_grammar (strip name) then None
          else if rm_dry_run m
          then Some \<lparr>nd_parameters = Some [], nd_classes = Some [], nd_applications = Some []\<rparr>
          else (case run_node ext (node_cmd reclass (rm_inventory_dir m) (strip name)
                                     ''--output'') of
                  Loaded d \<Rightarrow> Some d | _ \<Rightarrow> None))"
proof (cases "sanitize_node_name name")
  case (Inl e)
  then have "\<not> node_name_grammar (strip name)" using sanitize_node_name_Inl by blast
  with Inl show ?thesis
    by (simp add: ReclassManager_get_node_data_def split: option.splits)
next
  case (Inr n)
  then have "node_name_grammar (strip name)" and "n = strip name"
    by (simp_all add: sanitize_node_name_Inr)
  with Inr show ?thesis
    by (simp add: ReclassManager_get_node_data_def node_cmd_def Let_def
        split: option.splits proc_outcome.splits)
qed

lemma parser_typed:
  "snd (ReclassParser_get_node_data p ext name) =
     (case rp_reclass_path p of
        None \<Rightarrow> None
      | Some reclass \<Rightarrow>
          if \<not> node_name_grammar (strip name) then None
          else if rp_dry_run p
          then Some \<lparr>nd_parameters = Some [], nd_classes = Some [], nd_applications = Some []\<rparr>
          else (case run_node ext (node_cmd reclass (path_str (rp_inventory_dir p)) (strip name)
                                     ''--output-format'') of
                  Loaded d \<Rightarrow> Some d | _ \<Rightarrow> None))"
proof (cases "sanitize_node_name name")
  case (Inl e)
  then have "\<not> node_name_grammar (strip name)" using sanitize_node_name_Inl by blast
  with Inl show ?thesis
    by (simp add: ReclassParser_get_node_data_def split: option.splits)
next
  case (Inr n)
  then have "node_name_grammar (strip name)" and "n = strip name"
    by (simp_all add: sanitize_node_name_Inr)
  with Inr show ?thesis
    by (simp add: ReclassParser_get_node_data_def node_cmd_def Let_def
        split: option.splits proc_outcome.splits)
qed

lemma encode_placeholder:
  "encode_node \<lparr>nd_parameters = Some [], nd_classes = Some [], nd_applications = Some []\<rparr>
     = dry_run_document"
  by (simp add: encode_node_def dry_run_document_def)

lemma manager_typed_document:
  "snd (ReclassManager_get_node_data_json m (printed ext) name) =
     (case snd (ReclassManager_get_node_data m ext name) of
        None \<Rightarrow> PNone | Some d \<Rightarrow> encode_node d)"
  unfolding manager_document manager_typed printed_def
  by (simp add: encode_placeholder split: option.splits proc_outcome.splits)

lemma parser_typed_document:
  "snd (ReclassParser_get_node_data_json p (printed ext) name) =
     (case snd (ReclassParser_get_node_data p ext name) of
        None \<Rightarrow> PNone | Some d \<Rightarrow> encode_node d)"
  unfolding parser_document parser_typed printed_def
  by (simp add: encode_placeholder split: option.splits proc_outcome.splits)

lemma encode_node_object: "\<exists>items. encode_node d = PDict items"
  by (simp add: encode_node_def)

lemma typed_accessors_agree:
  "ReclassManager_get_node_parameters_json m (printed ext) name
     = Inr (PDict (ReclassManager_get_node_parameters m ext name))"
  "ReclassManager_get_node_classes_json m (printed ext) name
     = Inr (PList (map PStr (ReclassManager_get_node_classes m ext name)))"
  "ReclassParser_get_node_parameters_json p (printed ext) name
     = Inr (PDict (ReclassParser_get_node_parameters p ext name))"
  "ReclassParser_get_node_classes_json p (printed ext) name
     = Inr (PList (map PStr (ReclassParser_get_node_classes p ext name)))"
proof -
  show "ReclassManager_get_node_parameters_json m (printed ext) name
     = Inr (PDict (ReclassManager_get_node_parameters m ext name))"
  proof (cases "snd (ReclassManager_get_node_data m ext name)")
    case None
    then show ?thesis
      by (simp add: manager_accessors_absent manager_typed_document
          ReclassManager_get_node_parameters_def)
  next
    case (Some d)
    obtain items where i: "encode_node d = PDict items" using encode_node_object by blast
    with Some have "snd (ReclassManager_get_node_data_json m (printed ext) name) = PDict items"
      by (simp add: manager_typed_document)
    from manager_accessors_object(1) [OF this] encode_node_entries(1) [of d] i Some
    show ?thesis by (simp add: ReclassManager_get_node_parameters_def)
  qed
  show "ReclassManager_get_node_classes_json m (printed ext) name
     = Inr (PList (map PStr (ReclassManager_get_node_classes m ext name)))"
  proof (cases "snd (ReclassManager_get_node_data m ext name)")
    case None
    then show ?thesis
      by (simp add: manager_accessors_absent manager_typed_document
          ReclassManager_get_node_classes_def)
  next
    case (Some d)
    obtain items where i: "encode_node d = PDict items" using encode_node_object by blast
    with Some have "snd (ReclassManager_get_node_data_json m (printed ext) name) = PDict items"
      by (simp add: manager_typed_document)
    from manager_accessors_object(2) [OF this] encode_node_entries(2) [of d] i Some
    show ?thesis by (simp add: ReclassManager_get_node_classes_def)
  qed
  show "ReclassParser_get_node_parameters_json p (printed ext) name
     = Inr (PDict (ReclassParser_get_node_parameters p ext name))"
  proof (cases "snd (ReclassParser_get_node_data p ext name)")
    case None
    then show ?thesis
      by (simp add: parser_accessors_absent parser_typed_document
          ReclassParser_get_node_parameters_def)
  next
    case (Some d)
    obtain items where i: "encode_node d = PDict items" using encode_node_object by blast
    with Some have "snd (ReclassParser_get_node_data_json p (printed ext) name) = PDict items"
      by (simp add: parser_typed_document)
    from parser_accessors_object(1) [OF this] encode_node_entries(1) [of d] i Some
    show ?thesis by (simp add: ReclassParser_get_node_parameters_def)
  qed
  show "ReclassParser_get_node_classes_json p (printed ext) name
     = Inr (PList (map PStr (ReclassParser_get_node_classes p ext name)))"
  proof (cases "snd (ReclassParser_get_node_data p ext name)")
    case None
    then show ?thesis
      by (simp add: parser_accessors_absent parser_typed_document
          ReclassParser_get_node_classes_def)
  next
    case (Some d)
    obtain items where i: "encode_node d = PDict items" using encode_node_object by blast
    with Some have "snd (ReclassParser_get_node_data_json p (printed ext) name) = PDict items"
      by (simp add: parser_typed_document)
    from parser_accessors_object(2) [OF this] encode_node_entries(2) [of d] i Some
    show ?thesis by (simp add: ReclassParser_get_node_classes_def)
  qed
qed



section \<open>filter\_nodes: the class filter and the project filter\<close>

lemma accepted_given: "\<not> rejected_filter c \<Longrightarrow> given (Some c) = Some c"
  by (cases c) (simp_all add: rejected_filter_def)

lemma list_nodes_inventory:
  "ReclassManager_list_nodes self ext = map fst (inventory_nodes self ext)"
  by (simp add: ReclassManager_list_nodes_def inventory_nodes_def split: option.splits)

lemma get_nodes_by_class_inventory:
  "ReclassManager_get_nodes_by_class self ext c =
     map fst (filter (\<lambda>(n, d). carries_class c d) (inventory_nodes self ext))"
  by (simp add: ReclassManager_get_nodes_by_class_def inventory_nodes_def split: option.splits)

lemma mem_filtered_keys:
  "n \<in> set (map fst (filter (\<lambda>(m, d). Q d) xs)) \<longleftrightarrow> list_ex (\<lambda>(m, d). m = n \<and> Q d) xs"
  by (induction xs) auto

lemma get_nodes_by_class_has_class:
  "n \<in> set (ReclassManager_get_nodes_by_class self ext c) \<longleftrightarrow> has_class self ext c n"
proof -
  have "(\<lambda>d. carries_class c d)
          = (\<lambda>d. case nd_classes d of None \<Rightarrow> False | Some classes \<Rightarrow> c \<in> set classes)"
    by (simp add: carries_class_def fun_eq_iff)
  then show ?thesis
    unfolding get_nodes_by_class_inventory has_class_def by (simp only: mem_filtered_keys)
qed

lemma class_step_accepted:
  assumes "\<not> rejected_filter c"
  shows "class_step self ext (Some c) S = {n \<in> S. has_class self ext (strip c) n}"
proof -
  have "class_step self ext (Some c) S
          = S \<inter> set (ReclassManager_get_nodes_by_class self ext (strip c))"
    using assms accepted_given [OF assms]
    by (simp add: class_step_def apply_class_filter_def validate_filter_pattern_rejected)
  also have "\<dots> = {n \<in> S. has_class self ext (strip c) n}"
    using get_nodes_by_class_has_class [of _ self ext "strip c"] by blast
  finally show ?thesis .
qed

lemma has_class_listed:
  "has_class self ext c n \<Longrightarrow> n \<in> set (ReclassManager_list_nodes self ext)"
proof -
  assume "has_class self ext c n"
  then have "n \<in> set (map fst (filter (\<lambda>(m, d). case nd_classes d of None \<Rightarrow> False
                                                   | Some classes \<Rightarrow> c \<in> set classes)
                                 (inventory_nodes self ext)))"
    unfolding has_class_def by (simp only: mem_filtered_keys)
  then show ?thesis unfolding list_nodes_inventory by auto
qed

text \<open>
  A listing with a node in it comes from a classifier that is installed and was run.
\<close>

lemma listed_not_dry_run:
  assumes "n \<in> set (ReclassManager_list_nodes self ext)"
  shows "rm_reclass_path self \<noteq> None \<and> \<not> rm_dry_run self"
  using assms
  by (auto simp: ReclassManager_list_nodes_def ReclassManager_get_inventory_data_def Let_def
      split: option.splits if_splits)

lemma get_node_parameters_project:
  assumes "rm_reclass_path self \<noteq> None" and "\<not> rm_dry_run self"
  shows "map_of (ReclassManager_get_node_parameters self ext n) ''project'' = Some (PStr q)
           \<longleftrightarrow> node_name_grammar (strip n) \<and> has_project self ext q (strip n)"
proof (cases "node_name_grammar (strip n)")
  case False
  then have "\<exists>e. sanitize_node_name n = Inl e" using sanitize_node_name_Inl by blast
  then obtain e where "sanitize_node_name n = Inl e" by blast
  with False show ?thesis
    by (simp add: ReclassManager_get_node_parameters_def ReclassManager_get_node_data_def
        split: option.splits)
next
  case True
  then have s: "sanitize_node_name n = Inr (strip n)" by (simp add: sanitize_node_name_Inr)
  from assms(1) obtain reclass where r: "rm_reclass_path self = Some reclass" by blast
  show ?thesis
    using True assms(2)
    by (simp add: ReclassManager_get_node_parameters_def ReclassManager_get_node_data_def
        has_project_def node_parameters_def node_cmd_def r s Let_def
        split: proc_outcome.splits option.splits)
qed

lemma project_step_accepted:
  assumes "\<not> rejected_filter p" and "S \<subseteq> set (ReclassManager_list_nodes self ext)"
  shows "project_step self ext (Some p) S
           = {n \<in> S. node_name_grammar (strip n) \<and> has_project self ext (strip p) (strip n)}"
proof -
  have "project_step self ext (Some p) S
          = {n \<in> S. map_of (ReclassManager_get_node_parameters self ext n) ''project''
                      = Some (PStr (strip p))}"
    using assms(1) accepted_given [OF assms(1)]
    by (auto simp: project_step_def apply_project_filter_def validate_filter_pattern_rejected)
  also have "\<dots> = {n \<in> S. node_name_grammar (strip n) \<and>
                         has_project self ext (strip p) (strip n)}"
  proof -
    have "\<And>n. n \<in> S \<Longrightarrow>
            (map_of (ReclassManager_get_node_parameters self ext n) ''project''
               = Some (PStr (strip p)))
            = (node_name_grammar (strip n) \<and> has_project self ext (strip p) (strip n))"
    proof -
      fix n assume "n \<in> S"
      with assms(2) have "n \<in> set (ReclassManager_list_nodes self ext)" by blast
      then have "rm_reclass_path self \<noteq> None" and "\<not> rm_dry_run self"
        using listed_not_dry_run by blast+
      then show "(map_of (ReclassManager_get_node_parameters self ext n) ''project''
               = Some (PStr (strip p)))
            = (node_name_grammar (strip n) \<and> has_project self ext (strip p) (strip n))"
        by (rule get_node_parameters_project)
    qed
    then show ?thesis by blast
  qed
  finally show ?thesis .
qed

text \<open>A name inside the grammar has no surrounding whitespace.\<close>

lemma name_char_not_space: "name_char c \<Longrightarrow> \<not> py_isspace c"
proof -
  assume a: "name_char c"
  have "\<And>x y::char. x \<le> y \<longleftrightarrow> (of_char x :: nat) \<le> of_char y"
    by (simp add: less_eq_char_def)
  with a have "(45::nat) \<le> of_char c \<and> (of_char c :: nat) \<le> 122"
    by (auto simp: name_char_def)
  then show ?thesis by (simp add: py_isspace_def Let_def)
qed

lemma strip_no_space:
  assumes "s \<noteq> []" and "\<not> py_isspace (hd s)" and "\<not> py_isspace (last s)"
  shows "strip s = s"
proof -
  from assms(1,2) have 1: "dropWhile py_isspace s = s" by (cases s) simp_all
  from assms(1,3) have "dropWhile py_isspace (rev s) = rev s"
    by (cases "rev s") (simp_all add: last_rev [symmetric] hd_rev)
  with 1 show ?thesis by (simp add: strip_def)
qed

lemma node_name_grammar_strip: "node_name_grammar n \<Longrightarrow> strip n = n"
proof -
  assume g: "node_name_grammar n"
  then have ne: "n \<noteq> []" and all: "list_all name_char n"
    by (simp_all add: node_name_grammar_def)
  from ne all have "name_char (hd n)" and "name_char (last n)"
    by (simp_all add: list_all_iff)
  then have "\<not> py_isspace (hd n)" and "\<not> py_isspace (last n)"
    using name_char_not_space by blast+
  with ne show ?thesis by (rule strip_no_space)
qed

text \<open>
  C2 (as amended). Let the class filter value and the project filter value be accepted
  by the validation, which uses them with surrounding whitespace removed. With the class
  filter alone \<^verbatim>\<open>filter_nodes\<close> returns exactly the nodes whose classes sequence contains
  the class name. With the project filter alone it returns exactly the listed nodes
  whose name, surrounding whitespace removed, is a valid node name for which the
  classifier resolves a parameters mapping with the top-level key \<^verbatim>\<open>project\<close> equal to
  the project name. With both it returns exactly the nodes that satisfy both.
\<close>

theorem class_and_project_filters:
  assumes c: "\<not> rejected_filter c" and p: "\<not> rejected_filter p"
  shows
    "(\<exists>xs. filter_nodes self ext None (Some c) None = Inr xs \<and>
           set xs = {n. has_class self ext (strip c) n}) \<and>
     (\<exists>xs. filter_nodes self ext None None (Some p) = Inr xs \<and>
           set xs = {n \<in> set (ReclassManager_list_nodes self ext).
                       node_name_grammar (strip n) \<and>
                       has_project self ext (strip p) (strip n)}) \<and>
     (\<exists>xs. filter_nodes self ext None (Some c) (Some p) = Inr xs \<and>
           set xs = {n. has_class self ext (strip c) n \<and> node_name_grammar (strip n) \<and>
                       has_project self ext (strip p) (strip n)})"
proof -
  let ?all = "set (ReclassManager_list_nodes self ext)"
  let ?C = "{n. has_class self ext (strip c) n}"
  let ?P = "\<lambda>n. node_name_grammar (strip n) \<and> has_project self ext (strip p) (strip n)"
  have gc: "given (Some c) = Some c" and gp: "given (Some p) = Some p"
    using accepted_given [OF c] accepted_given [OF p] by blast+
  have n1: "\<not> no_filter None (Some c) None" and n2: "\<not> no_filter None None (Some p)"
    and n3: "\<not> no_filter None (Some c) (Some p)"
    using gc gp by (simp_all add: no_filter_def)
  have cs: "class_step self ext (Some c) ?all = ?C"
    using class_step_accepted [OF c, of self ext ?all] has_class_listed [of self ext "strip c"]
    by blast
  have sub: "?C \<subseteq> ?all"
    using has_class_listed [of self ext "strip c"] by blast
  then have fin_c: "finite ?C" by (rule finite_subset) simp
  have ps1: "project_step self ext (Some p) ?all = {n \<in> ?all. ?P n}"
    by (rule project_step_accepted [OF p]) simp
  have ps2: "project_step self ext (Some p) ?C = {n \<in> ?C. ?P n}"
    by (rule project_step_accepted [OF p sub])
  have cp: "{n \<in> ?C. ?P n} = {n. has_class self ext (strip c) n \<and> ?P n}" by blast
  have 1: "filter_nodes self ext None (Some c) None = Inr (sorted_list_of_set ?C)"
    using n1 by (simp add: filter_nodes_steps cs)
  have 2: "filter_nodes self ext None None (Some p)
             = Inr (sorted_list_of_set {n \<in> ?all. ?P n})"
    using n2 by (simp add: filter_nodes_steps ps1)
  have 3: "filter_nodes self ext None (Some c) (Some p)
             = Inr (sorted_list_of_set {n. has_class self ext (strip c) n \<and> ?P n})"
    using n3 by (simp add: filter_nodes_steps cs ps2 cp)
  have fin_p: "finite {n \<in> ?all. ?P n}" by simp
  have fin_cp: "finite {n. has_class self ext (strip c) n \<and> ?P n}"
    using fin_c by simp
  have "\<exists>xs. filter_nodes self ext None (Some c) None = Inr xs \<and> set xs = ?C"
    using 1 set_sorted_list_of_set [OF fin_c] by blast
  moreover have "\<exists>xs. filter_nodes self ext None None (Some p) = Inr xs \<and>
           set xs = {n \<in> ?all. ?P n}"
    using 2 set_sorted_list_of_set [OF fin_p] by blast
  moreover have "\<exists>xs. filter_nodes self ext None (Some c) (Some p) = Inr xs \<and>
           set xs = {n. has_class self ext (strip c) n \<and> ?P n}"
    using 3 set_sorted_list_of_set [OF fin_cp] by blast
  ultimately show ?thesis by (intro conjI)
qed

text \<open>
  The theorem at the example inventory: class web and project p1 yield \<open>a1\<close>, project
  p1 alone yields \<open>a1\<close> and \<open>a2\<close>.
\<close>

theorem class_and_project_filters_witness:
  "\<not> rejected_filter ''web'' \<and> \<not> rejected_filter ''p1'' \<and>
   filter_nodes example_manager example_classifier None (Some ''web'') (Some ''p1'')
     = Inr [''a1''] \<and>
   filter_nodes example_manager example_classifier None None (Some ''p1'')
     = Inr [''a1'', ''a2''] \<and>
   {n. has_class example_manager example_classifier ''web'' n \<and>
       node_name_grammar (strip n) \<and>
       has_project example_manager example_classifier ''p1'' (strip n)} = {''a1''} \<and>
   {n \<in> set (ReclassManager_list_nodes example_manager example_classifier).
       node_name_grammar (strip n) \<and>
       has_project example_manager example_classifier ''p1'' (strip n)} = {''a1'', ''a2''}"
proof -
  have c: "\<not> rejected_filter ''web''" by code_simp
  have p: "\<not> rejected_filter ''p1''" by code_simp
  have sc: "strip ''web'' = ''web''" by code_simp
  have sp: "strip ''p1'' = ''p1''" by code_simp
  have e1: "filter_nodes example_manager example_classifier None (Some ''web'') (Some ''p1'')
              = Inr [''a1'']"
    by code_simp
  have e2: "filter_nodes example_manager example_classifier None None (Some ''p1'')
              = Inr [''a1'', ''a2'']"
    by code_simp
  note t = class_and_project_filters [OF c p, of example_manager example_classifier]
  from t obtain xs where
    "filter_nodes example_manager example_classifier None (Some ''web'') (Some ''p1'') = Inr xs"
    and s1: "set xs = {n. has_class example_manager example_classifier (strip ''web'') n \<and>
                         node_name_grammar (strip n) \<and>
                         has_project example_manager example_classifier (strip ''p1'') (strip n)}"
    by blast
  with e1 have x1: "xs = [''a1'']" by simp
  from t obtain ys where
    "filter_nodes example_manager example_classifier None None (Some ''p1'') = Inr ys"
    and s2: "set ys = {n \<in> set (ReclassManager_list_nodes example_manager example_classifier).
                         node_name_grammar (strip n) \<and>
                         has_project example_manager example_classifier (strip ''p1'') (strip n)}"
    by blast
  with e2 have x2: "ys = [''a1'', ''a2'']" by simp
  from s1 [unfolded sc sp] x1
  have r1: "{n. has_class example_manager example_classifier ''web'' n \<and>
       node_name_grammar (strip n) \<and>
       has_project example_manager example_classifier ''p1'' (strip n)} = {''a1''}"
    by simp
  from s2 [unfolded sp] x2
  have r2: "{n \<in> set (ReclassManager_list_nodes example_manager example_classifier).
       node_name_grammar (strip n) \<and>
       has_project example_manager example_classifier ''p1'' (strip n)} = {''a1'', ''a2''}"
    by simp
  from c p e1 e2 r1 r2 show ?thesis by (intro conjI)
qed

text \<open>
  C2 as stated fails on the code in two ways. The project filter judges a listed node by
  the document of its stripped name and passes no node whose name is outside the
  node-name grammar: of the listed nodes \<^verbatim>\<open>' a1'\<close> (project p2), \<^verbatim>\<open>'a1'\<close> (project p1)
  and \<^verbatim>\<open>'a 1'\<close> (project p1) the filter p1 returns \<^verbatim>\<open>' a1'\<close> and \<^verbatim>\<open>'a1'\<close>. The
  class filter \<^verbatim>\<open>' web'\<close> returns the nodes of the class \<^verbatim>\<open>'web'\<close>, none of which has
  the given name among its classes.
\<close>

theorem filters_use_stripped_names:
  "filter_nodes example_manager blank_names_classifier None None (Some ''p1'')
     = Inr ['' a1'', ''a1''] \<and>
   \<not> has_project example_manager blank_names_classifier ''p1'' '' a1'' \<and>
   has_project example_manager blank_names_classifier ''p1'' ''a 1'' \<and>
   filter_nodes example_manager example_classifier None (Some '' web'') None
     = Inr [''a1'', ''a3''] \<and>
   \<not> has_class example_manager example_classifier '' web'' ''a1'' \<and>
   \<not> has_class example_manager example_classifier '' web'' ''a3''"
  by code_simp

section \<open>filter\_nodes: the node-name pattern\<close>

text \<open>
  On a pattern without a dot and a name without a newline the expression the code
  builds accepts exactly what the specification's wildcard rule accepts.
\<close>

lemma pattern_items_Cons:
  "pattern_items (c # p) = (if c = CHR ''*'' then Star AnyChar else One (re_atom_of c)) # pattern_items p"
  by (simp add: pattern_items_def)

lemma pattern_items_Nil [simp]: "pattern_items [] = []"
  by (simp add: pattern_items_def)

lemma re_match_agrees_without_dots:
  "CHR ''.'' \<notin> set p \<Longrightarrow> CHR 0x0A \<notin> set n \<Longrightarrow>
     re_match (pattern_items p) n = spec_wild_prefix p n"
proof (induction p n rule: spec_wild_prefix.induct)
  case (1 n)
  show ?case by simp
next
  case (2 p ps)
  then show ?case by (auto simp: pattern_items_Cons re_atom_of_def)
next
  case (3 p ps c n)
  show ?case
  proof (cases "p = CHR ''*''")
    case True
    with 3 show ?thesis by (auto simp: pattern_items_Cons)
  next
    case False
    with 3 show ?thesis by (auto simp: pattern_items_Cons re_atom_of_def)
  qed
qed

lemma node_matcher_agrees_without_dots:
  assumes "CHR ''.'' \<notin> set p" and "CHR 0x0A \<notin> set n"
  shows "node_matcher p = Inr accepts \<Longrightarrow> accepts n = spec_name_match p n"
  using assms
  by (auto simp: node_matcher_def spec_name_match_def re_compile_replace_star
      re_match_agrees_without_dots split: if_splits)

text \<open>The specification's own examples hold of the code.\<close>

lemma wildcard_examples:
  "filter_nodes example_manager wildcard_classifier (Some ''web-*'') None None
     = Inr [''web-01'', ''web-02'']"
  "filter_nodes example_manager wildcard_classifier (Some ''web-01'') None None
     = Inr [''web-01'']"
  "spec_name_match ''web-*'' ''web-01''" "spec_name_match ''web-*'' ''web-02''"
  "\<not> spec_name_match ''web-*'' ''db-01''"
  by code_simp+

text \<open>
  C3 fails on the code for a pattern with a dot: the dot is not escaped, so it matches
  any character. With the nodes \<open>web-01\<close>, \<open>web-02\<close>, \<open>db-01\<close> the pattern
  \<^verbatim>\<open>web.*\<close> selects \<open>web-01\<close> and \<open>web-02\<close>, neither of which starts with
  \<^verbatim>\<open>web.\<close>.
\<close>

theorem node_filter_dot_matches_any_character:
  "filter_nodes example_manager wildcard_classifier (Some ''web.*'') None None
     = Inr [''web-01'', ''web-02''] \<and>
   \<not> spec_name_match ''web.*'' ''web-01'' \<and> \<not> spec_name_match ''web.*'' ''web-02''"
  by code_simp

section \<open>Directory creation and dry-run synchronization\<close>

text \<open>
  Creating directories never touches a regular file: \<^verbatim>\<open>os.mkdir\<close> adds an entry only at
  a path where nothing exists.
\<close>

lemma map_of_put: "map_of (put p e fs) = (map_of fs)(p \<mapsto> e)"
  by (induction fs) (auto simp: fun_eq_iff)

lemma stat_put: "p \<noteq> [] \<Longrightarrow> stat (put p e fs) q = (if q = p then Some e else stat fs q)"
  by (simp add: stat_def map_of_put)

lemma file_content_put_dir:
  "\<not> path_exists fs p \<Longrightarrow> file_content (put p Dir fs) = file_content fs"
proof -
  assume a: "\<not> path_exists fs p"
  then have ne: "p \<noteq> []" and none: "stat fs p = None"
    by (auto simp: path_exists_def stat_def)
  show ?thesis
    using none by (auto simp: file_content_def fun_eq_iff stat_put [OF ne])
qed

lemma os_mkdir_files: "file_content (snd (os_mkdir fs p)) = file_content fs"
  by (simp add: os_mkdir_def file_content_put_dir split: option.splits)

lemma mkdir_exist_ok_files: "file_content (snd (mkdir_exist_ok fs p)) = file_content fs"
  using os_mkdir_files [of fs p]
  by (auto simp: mkdir_exist_ok_def split: prod.splits option.splits)


lemma quiet_refl [simp]: "quiet w w"
  by (simp add: quiet_def)


lemma executed_append [simp]: "executed (xs @ ys) = executed xs @ executed ys"
  by (simp add: executed_def)

lemma executed_Info [simp]: "executed [Info m] = []" "executed [Warning m] = []"
  by (simp_all add: executed_def)

lemma quiet_log_info [simp]: "quiet w (log_info m w')= quiet w w'"
  by (simp add: quiet_def log_info_def)

lemma quiet_log_warning [simp]: "quiet w (log_warning m w') = quiet w w'"
  by (simp add: quiet_def log_warning_def)


lemma quiet_mkdir_exist_ok: "quiet w (w\<lparr>w_fs := snd (mkdir_exist_ok (w_fs w) p)\<rparr>)"
  by (simp add: quiet_def mkdir_exist_ok_files)




section \<open>A missing source\<close>

text \<open>
  C9. When the source path does not exist, \<^verbatim>\<open>sync_directories\<close> returns false, with
  any manager (dry-run or not, with or without rsync): it logs the warning and does
  nothing else.
\<close>

theorem sync_missing_source_fails:
  "\<not> path_exists (w_fs w) source \<Longrightarrow>
     sync_directories self tool source destination options recursive w =
       (Inr False, log_warning (''Source directory does not exist: '' @ path_str source) w)"
  by (simp add: sync_directories_def)

text \<open>The theorem in dry-run mode, for the source \<open>srcA\<close> that is not on disk.\<close>

theorem sync_missing_source_fails_witness:
  "\<not> path_exists (w_fs example_world) [''srcA''] \<and>
   fm_dry_run (FileManager_init no_rsync True) \<and>
   sync_directories (FileManager_init no_rsync True) no_rsync [''srcA''] [''merged'']
       default_options True example_world
     = (Inr False, log_warning ''Source directory does not exist: srcA'' example_world)"
proof -
  have h: "\<not> path_exists (w_fs example_world) [''srcA'']" by code_simp
  have d: "fm_dry_run (FileManager_init no_rsync True)" by (simp add: FileManager_init_def)
  have s: "path_str [''srcA''] = ''srcA''" by (simp add: path_str_def)
  from sync_missing_source_fails [OF h, of "FileManager_init no_rsync True" no_rsync
         "[''merged'']" default_options True]
  have "sync_directories (FileManager_init no_rsync True) no_rsync [''srcA''] [''merged'']
            default_options True example_world
          = (Inr False, log_warning ''Source directory does not exist: srcA'' example_world)"
    unfolding s by simp
  with h d show ?thesis by (intro conjI)
qed

section \<open>merge\_inventories: the success flag\<close>





section \<open>Dry-run mode\<close>







section \<open>The file-system scan of ReclassParser.list\_nodes\<close>

text \<open>
  On a name that ends in \<^verbatim>\<open>.yml\<close>, \<^verbatim>\<open>with_suffix('')\<close> takes exactly that extension
  off; joining with \<^verbatim>\<open>/\<close> and replacing every \<^verbatim>\<open>/\<close> by a dot is joining with dots,
  since no component contains the separator.
\<close>

lemma ends_with_yml_split:
  assumes "ends_with name ''.yml''"
  shows "name = take (length name - 4) name @ ''.yml''"
proof -
  from assms have d: "drop (length name - 4) name = ''.yml''"
    by (simp add: ends_with_def eval_nat_numeral)
  have "name = take (length name - 4) name @ drop (length name - 4) name"
    by (simp only: append_take_drop_id)
  then show ?thesis by (simp only: d)
qed

lemma name_suffix_stem:
  "name_suffix (stem @ ''.yml'') = (if stem = [] then [] else ''.yml'')"
  by (simp add: name_suffix_def)

lemma name_suffix_dot_yml: "name_suffix ''.yml'' = []"
  by (simp add: name_suffix_def)

lemma with_suffix_strip_extension:
  assumes "ends_with name ''.yml''"
  shows "take (length name - length (name_suffix name)) name = strip_extension name"
proof -
  define stem where "stem = take (length name - 4) name"
  have name: "name = stem @ ''.yml''"
    unfolding stem_def by (rule ends_with_yml_split [OF assms])
  have len: "4 < length name \<longleftrightarrow> stem \<noteq> []"
    by (subst name) auto
  show ?thesis
  proof (cases "stem = []")
    case True
    with name have n: "name = ''.yml''" by simp
    show ?thesis unfolding n by (simp add: strip_extension_def name_suffix_dot_yml)
  next
    case False
    with len have l: "4 < length name" by simp
    have "name_suffix name = ''.yml''"
      by (subst name) (simp add: name_suffix_stem False)
    with assms l show ?thesis by (simp add: strip_extension_def eval_nat_numeral)
  qed
qed

lemma with_suffix_empty_yml:
  assumes "rel \<noteq> []" and "ends_with (last rel) ''.yml''"
  shows "with_suffix_empty rel = butlast rel @ [strip_extension (last rel)]"
  using assms by (simp add: with_suffix_empty_def with_suffix_strip_extension)

lemma replace_char_id: "old \<notin> set s \<Longrightarrow> replace_char old new s = s"
  by (induction s) (auto simp: replace_char_def)

lemma replace_char_append:
  "replace_char old new (a @ b) = replace_char old new a @ replace_char old new b"
  by (simp add: replace_char_def)

lemma replace_separators:
  "list_all (\<lambda>c. CHR ''/'' \<notin> set c) p \<Longrightarrow>
     replace_char CHR ''/'' CHR ''.'' (join ''/'' p) = join ''.'' p"
proof (induction "''/''" p rule: join.induct)
  case 1
  show ?case by (simp add: replace_char_def)
next
  case (2 x)
  then show ?case by (simp add: replace_char_id)
next
  case (3 x y ys)
  then show ?case
    by (simp add: replace_char_append replace_char_id) (simp add: replace_char_def)
qed

lemma strip_extension_separator_free:
  "CHR ''/'' \<notin> set name \<Longrightarrow> CHR ''/'' \<notin> set (strip_extension name)"
  by (auto simp: strip_extension_def dest: in_set_takeD)

lemma node_name_of_file:
  assumes rel: "rel \<noteq> []" and yml: "ends_with (last rel) ''.yml''"
    and free: "list_all (\<lambda>c. CHR ''/'' \<notin> set c) rel"
  shows "replace_char CHR ''/'' CHR ''.'' (path_str (with_suffix_empty rel)) = dotted_node_name rel"
proof -
  let ?p = "butlast rel @ [strip_extension (last rel)]"
  have w: "with_suffix_empty rel = ?p" by (rule with_suffix_empty_yml [OF rel yml])
  from free rel have "CHR ''/'' \<notin> set (last rel)"
    by (simp add: list_all_iff)
  then have l: "CHR ''/'' \<notin> set (strip_extension (last rel))"
    by (rule strip_extension_separator_free)
  from free have b: "list_all (\<lambda>c. CHR ''/'' \<notin> set c) (butlast rel)"
    by (auto simp: list_all_iff dest: in_set_butlastD)
  from b l have "list_all (\<lambda>c. CHR ''/'' \<notin> set c) ?p" by simp
  then have "replace_char CHR ''/'' CHR ''.'' (join ''/'' ?p) = join ''.'' ?p"
    by (rule replace_separators)
  then show ?thesis
    unfolding w dotted_node_name_def path_str_def by simp
qed

lemma rglob_yml_member:
  assumes "q \<in> set (rglob_yml fs d)" and "separator_free fs"
  shows "drop (length d) q \<noteq> []" and "ends_with (last (drop (length d) q)) ''.yml''"
    and "list_all (\<lambda>c. CHR ''/'' \<notin> set c) (drop (length d) q)"
proof -
  from assms(1) have bel: "below d q" and yml: "ends_with (last q) ''.yml''"
    and mem: "q \<in> fst ` set fs"
    by (auto simp: rglob_yml_def rglob_all_def)
  from bel have len: "length d < length q" by (simp add: below_def)
  then show ne: "drop (length d) q \<noteq> []" by simp
  from len have "last (drop (length d) q) = last q" by simp
  with yml show "ends_with (last (drop (length d) q)) ''.yml''" by simp
  from mem assms(2) have "list_all (\<lambda>c. CHR ''/'' \<notin> set c) q"
    by (auto simp: separator_free_def list_all_iff)
  then show "list_all (\<lambda>c. CHR ''/'' \<notin> set c) (drop (length d) q)"
    by (auto simp: list_all_iff dest: in_set_dropD)
qed

lemma scan_nodes_dotted:
  assumes "separator_free fs"
  shows "scan_nodes_from_filesystem self fs =
     (if path_exists fs (rp_inventory_dir self @ [''nodes''])
      then sort (map (\<lambda>q. dotted_node_name (drop (length (rp_inventory_dir self @ [''nodes''])) q))
                   (rglob_yml fs (rp_inventory_dir self @ [''nodes''])))
      else [])"
proof -
  let ?d = "rp_inventory_dir self @ [''nodes'']"
  have m: "map (\<lambda>node_file. replace_char CHR ''/'' CHR ''.''
                (path_str (with_suffix_empty (drop (length ?d) node_file))))
            (rglob_yml fs ?d)
        = map (\<lambda>q. dotted_node_name (drop (length ?d) q)) (rglob_yml fs ?d)"
    by (rule map_cong [OF refl])
       (rule node_name_of_file; rule rglob_yml_member [OF _ assms]; assumption)
  show ?thesis
    unfolding scan_nodes_from_filesystem_def Let_def m by simp
qed

text \<open>
  C8. Without the classifier, \<^verbatim>\<open>list_nodes\<close> scans the \<^verbatim>\<open>nodes\<close> subtree of the
  inventory directory: its result is the sorted list of the dotted names of the entries
  found there whose name ends in \<^verbatim>\<open>.yml\<close> (the relative path with the extension
  taken off and the separators replaced by dots), and empty when there is no \<^verbatim>\<open>nodes\<close>
  directory.
\<close>

theorem list_nodes_fallback_scan:
  assumes "rp_reclass_path self = None" and "separator_free fs"
  shows "ReclassParser_list_nodes self ext fs =
     (if path_exists fs (rp_inventory_dir self @ [''nodes''])
      then sort (map (\<lambda>q. dotted_node_name (drop (length (rp_inventory_dir self @ [''nodes''])) q))
                   (rglob_yml fs (rp_inventory_dir self @ [''nodes''])))
      else []) \<and>
   sorted (ReclassParser_list_nodes self ext fs)"
proof -
  have eq: "ReclassParser_list_nodes self ext fs = scan_nodes_from_filesystem self fs"
    using assms(1) by (simp add: ReclassParser_list_nodes_def)
  show ?thesis
    unfolding eq scan_nodes_dotted [OF assms(2)] by simp
qed

text \<open>
  The theorem at the example file system: \<^verbatim>\<open>nodes/prod/web01.yml\<close> and
  \<^verbatim>\<open>nodes/db.yml\<close> give \<open>db\<close> and \<open>prod.web01\<close>.
\<close>

theorem list_nodes_fallback_scan_witness:
  "rp_reclass_path (example_parser False) = None \<and> separator_free example_fs \<and>
   ReclassParser_list_nodes (example_parser False) example_classifier example_fs
     = [''db'', ''prod.web01''] \<and>
   sort (map (\<lambda>q. dotted_node_name
                     (drop (length (rp_inventory_dir (example_parser False) @ [''nodes''])) q))
           (rglob_yml example_fs (rp_inventory_dir (example_parser False) @ [''nodes''])))
     = [''db'', ''prod.web01'']"
proof -
  have h1: "rp_reclass_path (example_parser False) = None" by (simp add: example_parser_def)
  have h2: "separator_free example_fs" by code_simp
  have ex: "path_exists example_fs (rp_inventory_dir (example_parser False) @ [''nodes''])"
    by code_simp
  have ev: "ReclassParser_list_nodes (example_parser False) example_classifier example_fs
     = [''db'', ''prod.web01'']"
    by code_simp
  from list_nodes_fallback_scan [OF h1 h2, of example_classifier] ex ev
  have "sort (map (\<lambda>q. dotted_node_name
                     (drop (length (rp_inventory_dir (example_parser False) @ [''nodes''])) q))
           (rglob_yml example_fs (rp_inventory_dir (example_parser False) @ [''nodes''])))
     = [''db'', ''prod.web01'']"
    by (simp only: if_True)
  with h1 h2 ev show ?thesis by (intro conjI)
qed

end
